theory Spec2Isabelle
  imports Complex_Main "HOL-Library.AList" "HOL-Library.Log_Nat"
begin

section \<open>Go values, errors and panics\<close>

text \<open>
  The table writer of \<^verbatim>\<open>pkg/table/writer.go\<close> receives its records as
  \<^verbatim>\<open>interface{}\<close>. A dynamic Go value is modelled by the kinds the writer can tell
  apart: the nil interface, the scalar kinds, and the reference kinds, each of which has a
  nil value (\<open>None\<close>). Maps are string-keyed, as the maps the writer builds are.
  \<open>BoolV\<close> is a value of the predeclared type \<^verbatim>\<open>bool\<close>; \<open>DefinedBoolV\<close> is a value of a
  defined type whose underlying type is \<^verbatim>\<open>bool\<close>, named by the type: its kind is the same
  and a type assertion to \<^verbatim>\<open>bool\<close> fails on it.
\<close>

datatype go_value =
    NilInterface
  | BoolV bool
  | DefinedBoolV string bool
  | IntV int
  | UintV nat
  | StringV string
  | StructV "(string \<times> go_value) list"
  | ArrayV "go_value list"
  | SliceV "go_value list option"
  | MapV "(string \<times> go_value) list option"
  | PointerV "go_value option"
  | ChanV "nat option"
  | FuncV "nat option"
  | UnsafePointerV "nat option"

datatype kind =
    KInvalid | KBool | KInt | KUint | KString | KStruct | KArray
  | KSlice | KMap | KPointer | KChan | KFunc | KUnsafePointer | KInterface

datatype error = Error string

text \<open>
  A panic of package reflect, with the method called and the kind it was called on, or a
  run-time error, with its message.
\<close>

datatype panic = ValueError string kind | RuntimeError string

abbreviation newline :: string where
  "newline \<equiv> [CHR 0x0A]"

section \<open>The sink\<close>

text \<open>
  The writer's \<^verbatim>\<open>Writer\<close> field is an \<^verbatim>\<open>io.Writer\<close>: either the stream the
  configuration supplies, or a \<^verbatim>\<open>*tabwriter.Writer\<close> wrapped around it. A sink is
  modelled by its dynamic type together with the calls made on it so far, in order; what a
  call returns is decided by the environment from the sink's state.
\<close>

datatype sink_call = WriteCall string | FlushCall

datatype sink =
    Stream "sink_call list"
  | TabWriter sink nat nat nat char nat "sink_call list"

fun calls :: "sink \<Rightarrow> sink_call list" where
  "calls (Stream cs) = cs"
| "calls (TabWriter out minwidth tabwidth padding padchar flags cs) = cs"

fun called :: "sink_call \<Rightarrow> sink \<Rightarrow> sink" where
  "called c (Stream cs) = Stream (cs @ [c])"
| "called c (TabWriter out minwidth tabwidth padding padchar flags cs) =
     TabWriter out minwidth tabwidth padding padchar flags (cs @ [c])"

fun is_tabwriter :: "sink \<Rightarrow> bool" where
  "is_tabwriter (Stream cs) = False"
| "is_tabwriter (TabWriter out minwidth tabwidth padding padchar flags cs) = True"

definition tabwriter_NewWriter :: "sink \<Rightarrow> nat \<Rightarrow> nat \<Rightarrow> nat \<Rightarrow> char \<Rightarrow> nat \<Rightarrow> sink" where
  "tabwriter_NewWriter out minwidth tabwidth padding padchar flags =
     TabWriter out minwidth tabwidth padding padchar flags []"

text \<open>The bytes handed to the sink so far, and the number of flushes.\<close>

fun written :: "sink_call list \<Rightarrow> string" where
  "written [] = []"
| "written (WriteCall b # cs) = b @ written cs"
| "written (FlushCall # cs) = written cs"

fun flushes :: "sink_call list \<Rightarrow> nat" where
  "flushes [] = 0"
| "flushes (WriteCall b # cs) = flushes cs"
| "flushes (FlushCall # cs) = Suc (flushes cs)"

section \<open>The function catalog\<close>

text \<open>
  An entry of the \<^verbatim>\<open>funcMap\<close> is a callable of one of the signatures the file
  registers; a function of the base catalog or one a caller adds is opaque and known by a
  name only.
\<close>

datatype func =
    FnAny "go_value \<Rightarrow> string \<times> error option"
  | FnAny2 "go_value \<Rightarrow> go_value \<Rightarrow> string \<times> error option"
  | FnToMap "go_value \<Rightarrow> (string \<times> go_value) list option \<times> error option"
  | FnStrings "string list \<Rightarrow> string \<times> error option"
  | FnInt "int \<Rightarrow> string \<times> error option"
  | FnNilable "go_value \<Rightarrow> panic + string"
  | FnString "string \<Rightarrow> string \<times> error option"
  | FnOpaque string

section \<open>Collaborators\<close>

text \<open>
  Everything the file calls and does not define: the layout functions of the package
  (\<^verbatim>\<open>SimpleFormat\<close>, \<^verbatim>\<open>SimpleColumnFormat\<close>), the template engine, the
  JSON and YAML codecs, the object-to-map conversion, printing, and the results of the
  calls on the sink. They are parameters of the model. A template execution is given by the
  pieces of text it writes, in order, and the error it ends with, if any. The conversion
  returns a map and an error as the Go function does: the map can be nil (\<open>None\<close>), also
  when the error is nil.
\<close>

record env =
  SimpleFormat :: "string list list \<Rightarrow> string \<times> string"
  SimpleColumnFormat :: "string \<Rightarrow> string"
  sprig_TxtFuncMap :: "string \<rightharpoonup> func"
  template_Parse :: "(string \<rightharpoonup> func) \<Rightarrow> string \<Rightarrow> error option"
  template_Execute :: "(string \<rightharpoonup> func) \<Rightarrow> string \<Rightarrow> go_value \<Rightarrow> string list \<times> error option"
  json_MarshalIndent :: "go_value \<Rightarrow> string \<Rightarrow> string \<Rightarrow> string \<times> error option"
  json_Marshal :: "go_value \<Rightarrow> string \<times> error option"
  yaml_JSONToYAML :: "string \<Rightarrow> string \<times> error option"
  yaml_Marshal :: "go_value \<Rightarrow> string \<times> error option"
  spew_Sdump :: "go_value \<Rightarrow> string"
  convert_EncodeToMap :: "go_value \<Rightarrow> (string \<times> go_value) list option \<times> error option"
  convert_ToString :: "go_value \<Rightarrow> string"
  fmt_Sprint :: "go_value \<Rightarrow> string"
  write_result :: "sink \<Rightarrow> string \<Rightarrow> error option"
  flush_result :: "sink \<Rightarrow> error option"

definition sink_Write :: "env \<Rightarrow> sink \<Rightarrow> string \<Rightarrow> sink \<times> error option" where
  "sink_Write E out b = (called (WriteCall b) out, write_result E out b)"

definition sink_Flush :: "env \<Rightarrow> sink \<Rightarrow> sink \<times> error option" where
  "sink_Flush E out = (called FlushCall out, flush_result E out)"

section \<open>The writer\<close>

record WriterConfig =
  cfg_Quiet :: bool
  cfg_NoTrunc :: bool
  cfg_Format :: string
  cfg_Writer :: sink
  cfg_IDColumn :: string

record writer =
  closed_flag :: bool
  HeaderFormat :: string
  ValueFormat :: string
  err :: "error option"
  headerPrinted :: bool
  Writer :: sink
  funcMap :: "string \<rightharpoonup> func"

subsection \<open>Catalog functions\<close>

fun strings_Join :: "string list \<Rightarrow> string \<Rightarrow> string" where
  "strings_Join [] sep = ''''"
| "strings_Join [x] sep = x"
| "strings_Join (x # y # ys) sep = x @ sep @ strings_Join (y # ys) sep"

definition ToArray :: "string list \<Rightarrow> string \<times> error option" where
  "ToArray s = (strings_Join s '', '', None)"

definition ToArrayFirst :: "string list \<Rightarrow> string \<times> error option" where
  "ToArrayFirst s = (if length s > 0 then (s ! 0, None) else ('''', None))"

text \<open>
  \<^verbatim>\<open>float64\<close> arithmetic: the result of an operation is the exact result rounded to the
  nearest number with a 53-bit significand, ties to the even significand. The exponent range
  is left out: \<^verbatim>\<open>Graph\<close> converts a machine integer, divides it by 100 and multiplies
  by 30, which neither overflows nor reaches the subnormal numbers. The integer itself is
  an \<open>int\<close>: \<^verbatim>\<open>Graph\<close> does no integer arithmetic on it that could wrap.

  \<open>ilog2 x\<close> is the exponent of a positive \<open>x\<close>, that is \<open>\<lfloor>log\<^sub>2 x\<rfloor>\<close>: the bit lengths of
  numerator and denominator give it up to one, and a comparison settles it.
\<close>

definition ilog2 :: "rat \<Rightarrow> int" where
  "ilog2 x =
     (let (p, q) = quotient_of x;
          k = bitlen p - bitlen q
      in if 2 powi k \<le> x then k else k - 1)"

definition round_half_even :: "rat \<Rightarrow> int" where
  "round_half_even y =
     (let f = \<lfloor>y\<rfloor>; d = y - of_int f
      in if d < 1 / 2 then f else if 1 / 2 < d then f + 1 else if even f then f else f + 1)"

definition float64 :: "rat \<Rightarrow> rat" where
  "float64 x =
     (if x = 0 then 0
      else let e = ilog2 \<bar>x\<bar> - 52 in of_int (round_half_even (x / 2 powi e)) * 2 powi e)"

text \<open>The conversion \<^verbatim>\<open>int(f)\<close> of a float drops the fraction (towards zero).\<close>

definition int_of_float64 :: "rat \<Rightarrow> int" where
  "int_of_float64 x = (if 0 \<le> x then \<lfloor>x\<rfloor> else \<lceil>x\<rceil>)"

text \<open>\<^verbatim>\<open>%v\<close> of an integer: its decimal digits, with a minus sign when negative.\<close>

fun digits :: "nat \<Rightarrow> string" where
  "digits n = (if n < 10 then [''0123456789'' ! n] else digits (n div 10) @ [''0123456789'' ! (n mod 10)])"

declare digits.simps [simp del]

definition decimal :: "int \<Rightarrow> string" where
  "decimal i = (if i < 0 then CHR ''-'' # digits (nat (- i)) else digits (nat i))"

text \<open>
  The loop of \<^verbatim>\<open>Graph\<close>: \<open>i\<close> runs from 0 while \<open>i < bars\<close>; the last round writes the
  label and leaves the loop, every other round writes one \<^verbatim>\<open>=\<close>.
\<close>

function Graph_loop :: "int \<Rightarrow> int \<Rightarrow> int \<Rightarrow> string \<Rightarrow> string" where
  "Graph_loop v bars i builder =
     (if i < bars then
        (if i = bars - 1 then builder @ (''> '' @ decimal v)
         else Graph_loop v bars (i + 1) (builder @ ''=''))
      else builder)"
  by pat_completeness auto
termination
  by (relation "measure (\<lambda>(v, bars, i, builder). nat (bars - i))") auto

declare Graph_loop.simps [simp del]

definition Graph :: "int \<Rightarrow> string \<times> error option" where
  "Graph v =
     (let bars = int_of_float64 (float64 (float64 (float64 (of_int v) / 100) * 30))
      in (Graph_loop v bars 0 [], None))"

text \<open>
  \<^verbatim>\<open>reflect.ValueOf(data)\<close> has the kind of the dynamic value, \<^verbatim>\<open>Invalid\<close> for the
  nil interface. \<^verbatim>\<open>IsNil\<close> answers for the kinds that have a nil value and panics for
  every other kind.
\<close>

fun reflect_Kind :: "go_value \<Rightarrow> kind" where
  "reflect_Kind NilInterface = KInvalid"
| "reflect_Kind (BoolV b) = KBool"
| "reflect_Kind (DefinedBoolV n b) = KBool"
| "reflect_Kind (IntV i) = KInt"
| "reflect_Kind (UintV n) = KUint"
| "reflect_Kind (StringV s) = KString"
| "reflect_Kind (StructV fs) = KStruct"
| "reflect_Kind (ArrayV xs) = KArray"
| "reflect_Kind (SliceV xs) = KSlice"
| "reflect_Kind (MapV m) = KMap"
| "reflect_Kind (PointerV p) = KPointer"
| "reflect_Kind (ChanV c) = KChan"
| "reflect_Kind (FuncV f) = KFunc"
| "reflect_Kind (UnsafePointerV p) = KUnsafePointer"

fun nil_reference :: "go_value \<Rightarrow> bool" where
  "nil_reference (SliceV xs) = (xs = None)"
| "nil_reference (MapV m) = (m = None)"
| "nil_reference (PointerV p) = (p = None)"
| "nil_reference (ChanV c) = (c = None)"
| "nil_reference (FuncV f) = (f = None)"
| "nil_reference (UnsafePointerV p) = (p = None)"
| "nil_reference v = False"

definition nilable :: "kind \<Rightarrow> bool" where
  "nilable k = (k \<in> {KChan, KFunc, KMap, KPointer, KUnsafePointer, KInterface, KSlice})"

definition reflect_IsNil :: "go_value \<Rightarrow> panic + bool" where
  "reflect_IsNil v =
     (if nilable (reflect_Kind v) then Inr (nil_reference v)
      else Inl (ValueError ''reflect.Value.IsNil'' (reflect_Kind v)))"

definition Pointer :: "env \<Rightarrow> go_value \<Rightarrow> panic + string" where
  "Pointer E data =
     (case reflect_IsNil data of
        Inl p \<Rightarrow> Inl p
      | Inr isnil \<Rightarrow> if isnil then Inr '''' else Inr (fmt_Sprint E data))"

definition FormatJSON :: "env \<Rightarrow> go_value \<Rightarrow> string \<times> error option" where
  "FormatJSON E data =
     (let (bytes, e) = json_MarshalIndent E data '''' ''    '' in (bytes @ newline, e))"

definition FormatJSONCompact :: "env \<Rightarrow> go_value \<Rightarrow> string \<times> error option" where
  "FormatJSONCompact E data = (let (bytes, e) = json_Marshal E data in (bytes @ newline, e))"

definition FormatYAML :: "env \<Rightarrow> go_value \<Rightarrow> string \<times> error option" where
  "FormatYAML E data =
     (let (bytes, e) = yaml_Marshal E data in (''---'' @ newline @ bytes @ newline, e))"

definition FormatSpew :: "env \<Rightarrow> go_value \<Rightarrow> string \<times> error option" where
  "FormatSpew E data = (spew_Sdump E data, None)"

definition FormatFirst :: "env \<Rightarrow> go_value \<Rightarrow> go_value \<Rightarrow> string \<times> error option" where
  "FormatFirst E data data2 =
     (let str = convert_ToString E data in
      if str \<noteq> '''' then (str, None)
      else let str2 = convert_ToString E data2 in
        if str2 \<noteq> '''' then (str2, None) else ('''', None))"

definition ToJSON :: "env \<Rightarrow> go_value \<Rightarrow> (string \<times> go_value) list option \<times> error option" where
  "ToJSON E data = convert_EncodeToMap E data"

text \<open>
  The two type assertions of \<^verbatim>\<open>BoolToStar\<close> ask for the types \<^verbatim>\<open>bool\<close> and
  \<^verbatim>\<open>*bool\<close> themselves: a value of a defined boolean type, or a pointer to one, passes
  neither.
\<close>

definition BoolToStar :: "go_value \<Rightarrow> string \<times> error option" where
  "BoolToStar obj =
     (case obj of
        BoolV b \<Rightarrow> if b then (''*'', None) else ('''', None)
      | PointerV (Some (BoolV b)) \<Rightarrow> if b then (''*'', None) else ('''', None)
      | _ \<Rightarrow> ('''', None))"

definition localFuncMap :: "env \<Rightarrow> (string \<rightharpoonup> func)" where
  "localFuncMap E = map_of
     [(''json'', FnAny (FormatJSON E)),
      (''jsoncompact'', FnAny (FormatJSONCompact E)),
      (''yaml'', FnAny (FormatYAML E)),
      (''first'', FnAny2 (FormatFirst E)),
      (''dump'', FnAny (FormatSpew E)),
      (''toJson'', FnToMap (ToJSON E)),
      (''boolToStar'', FnAny BoolToStar),
      (''array'', FnStrings ToArray),
      (''arrayFirst'', FnStrings ToArrayFirst),
      (''graph'', FnInt Graph),
      (''pointer'', FnNilable (Pointer E))]"

subsection \<open>Construction\<close>

fun idFormat :: "env \<Rightarrow> string \<Rightarrow> string list list \<Rightarrow> string" where
  "idFormat E idColumn [] = ''''"
| "idFormat E idColumn (vals # rest) =
     (if length vals > 1 \<and> vals ! 0 = idColumn then SimpleColumnFormat E (vals ! 1) @ newline
      else idFormat E idColumn rest)"

text \<open>The closure \<^verbatim>\<open>NewWriter\<close> registers under the name \<^verbatim>\<open>id\<close>.\<close>

definition id_func :: "WriterConfig \<Rightarrow> string \<Rightarrow> string \<times> error option" where
  "id_func config obj =
     (let ident = obj in
      if cfg_NoTrunc config \<or> cfg_Quiet config then (ident, None)
      else if length ident > 12 then (take 12 ident, None)
      else (ident, None))"

definition NewWriter :: "env \<Rightarrow> string list list \<Rightarrow> WriterConfig \<Rightarrow> writer" where
  "NewWriter E values config =
     (let fm = (sprig_TxtFuncMap E ++ localFuncMap E)(''id'' \<mapsto> FnString (id_func config));
          out = (if cfg_Format config = ''raw'' then cfg_Writer config
                 else tabwriter_NewWriter (cfg_Writer config) 10 1 3 CHR '' '' 0);
          (h0, v0) = SimpleFormat E values;
          (h1, v1) = (if cfg_Quiet config then ('''', idFormat E (cfg_IDColumn config) values)
                      else (h0, v0));
          customFormat = cfg_Format config;
          (h2, v2) =
            (if customFormat = ''json'' then ('''', ''json'')
             else if customFormat = ''jsoncompact'' then ('''', ''jsoncompact'')
             else if customFormat = ''yaml'' then ('''', ''yaml'')
             else if customFormat = ''raw'' then (h1, v1)
             else if customFormat \<noteq> '''' then ('''', customFormat @ newline)
             else (h1, v1))
      in \<lparr>closed_flag = False, HeaderFormat = h2, ValueFormat = v2, err = None,
          headerPrinted = False, Writer = out, funcMap = fm\<rparr>)"

definition AddFormatFunc :: "writer \<Rightarrow> string \<Rightarrow> func \<Rightarrow> writer" where
  "AddFormatFunc t name f = t\<lparr>funcMap := (funcMap t)(name \<mapsto> f)\<rparr>"

subsection \<open>Rendering\<close>

text \<open>
  Executing a template writes its pieces to the sink one after the other and stops at the
  first write that fails.
\<close>

fun write_pieces :: "env \<Rightarrow> sink \<Rightarrow> string list \<Rightarrow> sink \<times> error option" where
  "write_pieces E out [] = (out, None)"
| "write_pieces E out (p # ps) =
     (case sink_Write E out p of
        (out', Some e) \<Rightarrow> (out', Some e)
      | (out', None) \<Rightarrow> write_pieces E out' ps)"

definition printTemplate :: "env \<Rightarrow> writer \<Rightarrow> sink \<Rightarrow> string \<Rightarrow> go_value \<Rightarrow> sink \<times> error option" where
  "printTemplate E t out templateContent obj =
     (case template_Parse E (funcMap t) templateContent of
        Some e \<Rightarrow> (out, Some e)
      | None \<Rightarrow>
          (case template_Execute E (funcMap t) templateContent obj of
             (pieces, xe) \<Rightarrow>
               (case write_pieces E out pieces of
                  (out', Some e) \<Rightarrow> (out', Some e)
                | (out', None) \<Rightarrow> (out', xe))))"

definition writeHeader :: "env \<Rightarrow> writer \<Rightarrow> writer" where
  "writeHeader E t =
     (if HeaderFormat t \<noteq> '''' \<and> \<not> headerPrinted t then
        (let t1 = t\<lparr>headerPrinted := True\<rparr>;
             (out, e) = printTemplate E t1 (Writer t1) (HeaderFormat t1) (StructV [])
         in t1\<lparr>Writer := out, err := e\<rparr>)
      else t)"

text \<open>
  \<^verbatim>\<open>Write\<close> returns the writer as the call leaves it and the panic the call ends in, if
  any. The one panic of the function itself is the assignment \<^verbatim>\<open>data["Typed"] = obj\<close> on
  a nil map, when the conversion returns a nil map and a nil error; the writer is then as the
  header step left it. A caller that recovers from the panic can go on calling, so a sequence
  of calls does not end there.
\<close>

definition Write :: "env \<Rightarrow> writer \<Rightarrow> go_value \<Rightarrow> writer \<times> panic option" where
  "Write E t obj =
     (if err t \<noteq> None then (t, None)
      else let t1 = writeHeader E t in
        if err t1 \<noteq> None then (t1, None)
        else if ValueFormat t1 = ''json'' then
          (let (content, e) = FormatJSON E obj; t2 = t1\<lparr>err := e\<rparr> in
           if err t2 \<noteq> None then (t2, None)
           else let (out, e') = sink_Write E (Writer t2) (content @ newline)
                in (t2\<lparr>Writer := out, err := e'\<rparr>, None))
        else if ValueFormat t1 = ''jsoncompact'' then
          (let (content, e) = FormatJSONCompact E obj; t2 = t1\<lparr>err := e\<rparr> in
           if err t2 \<noteq> None then (t2, None)
           else let (out, e') = sink_Write E (Writer t2) content
                in (t2\<lparr>Writer := out, err := e'\<rparr>, None))
        else if ValueFormat t1 = ''yaml'' then
          (let (content, e) = FormatJSON E obj; t2 = t1\<lparr>err := e\<rparr> in
           if err t2 \<noteq> None then (t2, None)
           else let (converted, e') = yaml_JSONToYAML E content; t3 = t2\<lparr>err := e'\<rparr> in
             if err t3 \<noteq> None then (t3, None)
             else let (out, ignored) = sink_Write E (Writer t3) (''---'' @ newline);
                      (out', e'') = sink_Write E out (converted @ newline)
                  in (t3\<lparr>Writer := out', err := e''\<rparr>, None))
        else
          (case convert_EncodeToMap E obj of
             (data, None) \<Rightarrow>
               (case data of
                  None \<Rightarrow> (t1, Some (RuntimeError ''assignment to entry in nil map''))
                | Some m \<Rightarrow>
                    (let data' = AList.update ''Typed'' obj m;
                         (out, e) = printTemplate E t1 (Writer t1) (ValueFormat t1) (MapV (Some data'))
                     in (t1\<lparr>Writer := out, err := e\<rparr>, None)))
           | (data, Some conversion_error) \<Rightarrow>
               (let (out, e) = printTemplate E t1 (Writer t1) (ValueFormat t1) obj
                in (t1\<lparr>Writer := out, err := e\<rparr>, None))))"

text \<open>
  \<^verbatim>\<open>Close\<close> returns the writer and the error. The deferred assignment of
  \<^verbatim>\<open>closed\<close> is registered after the two early returns, so it runs only on the paths
  below them; the value returned is computed before it runs.
\<close>

definition Close :: "env \<Rightarrow> writer \<Rightarrow> writer \<times> error option" where
  "Close E t =
     (if closed_flag t then (t, err t)
      else if err t \<noteq> None then (t, err t)
      else let t1 = writeHeader E t in
        if err t1 \<noteq> None then (t1\<lparr>closed_flag := True\<rparr>, err t1)
        else if is_tabwriter (Writer t1) then
          (let (out, fe) = sink_Flush E (Writer t1)
           in (t1\<lparr>Writer := out, closed_flag := True\<rparr>, fe))
        else (t1\<lparr>closed_flag := True\<rparr>, None))"

definition Err :: "env \<Rightarrow> writer \<Rightarrow> writer \<times> error option" where
  "Err E t = Close E t"

subsection \<open>Sequences of calls\<close>

datatype call = CallWrite go_value | CallClose | CallErr | CallAddFormatFunc string func

fun step :: "env \<Rightarrow> writer \<Rightarrow> call \<Rightarrow> writer" where
  "step E t (CallWrite obj) = fst (Write E t obj)"
| "step E t CallClose = fst (Close E t)"
| "step E t CallErr = fst (Err E t)"
| "step E t (CallAddFormatFunc name f) = AddFormatFunc t name f"

fun run :: "env \<Rightarrow> writer \<Rightarrow> call list \<Rightarrow> writer" where
  "run E t [] = t"
| "run E t (c # cs) = run E (step E t c) cs"

text \<open>The writer before the first call and after each call of a sequence.\<close>

fun states :: "env \<Rightarrow> writer \<Rightarrow> call list \<Rightarrow> writer list" where
  "states E t [] = [t]"
| "states E t (c # cs) = t # states E (step E t c) cs"

text \<open>How often a flag goes from false to true along a sequence of its values.\<close>

fun rises :: "bool list \<Rightarrow> nat" where
  "rises (a # b # bs) = (if \<not> a \<and> b then 1 else 0) + rises (b # bs)"
| "rises bs = 0"

text \<open>
  The first three checks of \<^verbatim>\<open>Close\<close> pass, the sink is a tabwriter, and its flush
  returns an error.
\<close>

definition Close_flush_fails :: "env \<Rightarrow> writer \<Rightarrow> bool" where
  "Close_flush_fails E t =
     (\<not> closed_flag t \<and> err t = None \<and>
      (let t1 = writeHeader E t
       in err t1 = None \<and> is_tabwriter (Writer t1) \<and> flush_result E (Writer t1) \<noteq> None))"

subsection \<open>The identifier template as the specification words it\<close>

text \<open>
  The specification takes the first row whose first cell equals the identifier column and
  uses that row's value template, with a newline appended; the template is empty when no
  row's first cell equals the identifier column. A row of a single cell has no value
  template, which is the result \<open>None\<close>.
\<close>

definition stated_idFormat :: "env \<Rightarrow> string \<Rightarrow> string list list \<Rightarrow> string option" where
  "stated_idFormat E idColumn values =
     (case find (\<lambda>vals. vals \<noteq> [] \<and> vals ! 0 = idColumn) values of
        None \<Rightarrow> Some ''''
      | Some vals \<Rightarrow>
          if length vals > 1 then Some (SimpleColumnFormat E (vals ! 1) @ newline) else None)"

subsection \<open>A sample environment\<close>

text \<open>
  Collaborators to run the model on: a layout that joins the column names, and the column
  templates, with tabs; a template engine for the template \<^verbatim>\<open>{{.}}\<close> followed by a
  newline, which prints the context and then the newline, and for templates without
  actions, which render as their own text in one piece; codecs for the empty struct and for
  integers; a conversion that gives the empty map for the empty struct, a nil map and a nil
  error for a nil record (JSON \<^verbatim>\<open>null\<close> decodes to a nil map), and an error for an
  integer; a sink whose calls succeed.
\<close>

definition sample_SimpleFormat :: "string list list \<Rightarrow> string \<times> string" where
  "sample_SimpleFormat values =
     (strings_Join (map (\<lambda>vals. case vals of [] \<Rightarrow> '''' | a # r \<Rightarrow> a) values) [CHR 0x09] @ newline,
      strings_Join (map (\<lambda>vals. case vals of a # b # r \<Rightarrow> b | _ \<Rightarrow> '''') values) [CHR 0x09] @ newline)"

definition sample_MarshalIndent :: "go_value \<Rightarrow> string \<Rightarrow> string \<Rightarrow> string \<times> error option" where
  "sample_MarshalIndent v prefix indent =
     (case v of
        StructV [] \<Rightarrow> (''{}'', None)
      | IntV i \<Rightarrow> (decimal i, None)
      | _ \<Rightarrow> ('''', Some (Error ''json: unsupported type'')))"

definition sample_EncodeToMap :: "go_value \<Rightarrow> (string \<times> go_value) list option \<times> error option" where
  "sample_EncodeToMap v =
     (case v of
        NilInterface \<Rightarrow> (None, None)
      | PointerV None \<Rightarrow> (None, None)
      | SliceV None \<Rightarrow> (None, None)
      | MapV None \<Rightarrow> (None, None)
      | MapV (Some m) \<Rightarrow> (Some m, None)
      | StructV [] \<Rightarrow> (Some [], None)
      | _ \<Rightarrow> (None, Some (Error
          ''json: cannot unmarshal into Go value of type map[string]interface {}'')))"

definition sample_Sprint :: "go_value \<Rightarrow> string" where
  "sample_Sprint v =
     (case v of
        NilInterface \<Rightarrow> ''<nil>''
      | IntV i \<Rightarrow> decimal i
      | StringV s \<Rightarrow> s
      | StructV [] \<Rightarrow> ''{}''
      | MapV (Some [(k, StructV [])]) \<Rightarrow> ''map['' @ k @ '':{}]''
      | _ \<Rightarrow> ''0xc000012345'')"

definition sample_Execute :: "string \<Rightarrow> go_value \<Rightarrow> string list \<times> error option" where
  "sample_Execute text ctx =
     (if text = ''{{.}}'' @ newline then ([sample_Sprint ctx, newline], None) else ([text], None))"

definition sample_env :: env where
  "sample_env =
     \<lparr>SimpleFormat = sample_SimpleFormat,
      SimpleColumnFormat = (\<lambda>v. v),
      sprig_TxtFuncMap = Map.empty,
      template_Parse = (\<lambda>fm text. None),
      template_Execute = (\<lambda>fm text ctx. sample_Execute text ctx),
      json_MarshalIndent = sample_MarshalIndent,
      json_Marshal = (\<lambda>v. sample_MarshalIndent v '''' ''''),
      yaml_JSONToYAML = (\<lambda>j. (j, None)),
      yaml_Marshal = (\<lambda>v. sample_MarshalIndent v '''' ''''),
      spew_Sdump = sample_Sprint,
      convert_EncodeToMap = sample_EncodeToMap,
      convert_ToString = sample_Sprint,
      fmt_Sprint = sample_Sprint,
      write_result = (\<lambda>out b. None),
      flush_result = (\<lambda>out. None)\<rparr>"

text \<open>
  The same with a stream that refuses every write. A write on the stream itself fails; a
  tabwriter in front of the stream buffers what it is given and accepts it, and fails when
  it is flushed.
\<close>

definition broken_pipe :: error where
  "broken_pipe = Error ''write /dev/stdout: broken pipe''"

definition sample_env_broken_pipe :: env where
  "sample_env_broken_pipe =
     sample_env\<lparr>write_result := (\<lambda>out b. if is_tabwriter out then None else Some broken_pipe),
                flush_result := (\<lambda>out. Some broken_pipe)\<rparr>"

definition sample_columns :: "string list list" where
  "sample_columns = [[''NAME'', ''name''], [''ID'', ''id'']]"

definition sample_config :: WriterConfig where
  "sample_config =
     \<lparr>cfg_Quiet = False, cfg_NoTrunc = False, cfg_Format = '''', cfg_Writer = Stream [],
      cfg_IDColumn = ''ID''\<rparr>"

definition sample_raw_config :: WriterConfig where
  "sample_raw_config = sample_config\<lparr>cfg_Format := ''raw''\<rparr>"

section \<open>The bar graph\<close>

lemma Graph_loop_below:
  "i < bars \<Longrightarrow>
   Graph_loop v bars i b = b @ replicate (nat (bars - 1 - i)) CHR ''='' @ ''> '' @ decimal v"
proof (induction v bars i b rule: Graph_loop.induct)
  case (1 v bars i builder)
  show ?case
  proof (cases "i = bars - 1")
    case True
    then show ?thesis by (subst Graph_loop.simps) simp
  next
    case False
    with 1 have lt: "i + 1 < bars" by simp
    have step: "Graph_loop v bars i builder = Graph_loop v bars (i + 1) (builder @ ''='')"
      using "1.prems" False by (subst Graph_loop.simps) simp
    have "nat (bars - 1 - i) = Suc (nat (bars - 1 - (i + 1)))"
      using lt by simp
    then have "replicate (nat (bars - 1 - i)) CHR ''='' =
        CHR ''='' # replicate (nat (bars - 1 - (i + 1))) CHR ''=''"
      by simp
    then show ?thesis
      using "1.IH" [OF "1.prems" False lt] step by simp
  qed
qed

lemma Graph_loop_none: "\<not> i < bars \<Longrightarrow> Graph_loop v bars i b = b"
  by (subst Graph_loop.simps) simp

lemma int_of_float64_pos: "0 < int_of_float64 x \<longleftrightarrow> 0 < \<lfloor>x\<rfloor>"
  by (auto simp: int_of_float64_def)

lemma int_of_float64_floor: "0 < \<lfloor>x\<rfloor> \<Longrightarrow> int_of_float64 x = \<lfloor>x\<rfloor>"
  by (auto simp: int_of_float64_def)

lemma Graph_floor:
  "Graph v =
     (let bars = \<lfloor>float64 (float64 (float64 (of_int v) / 100) * 30)\<rfloor>
      in if bars \<le> 0 then ('''', None)
         else (replicate (nat (bars - 1)) CHR ''='' @ ''> '' @ decimal v, None))"
proof -
  define x where "x = float64 (float64 (float64 (of_int v) / 100) * 30)"
  show ?thesis
  proof (cases "0 < \<lfloor>x\<rfloor>")
    case True
    then have "int_of_float64 x = \<lfloor>x\<rfloor>" by (rule int_of_float64_floor)
    with True show ?thesis
      unfolding Graph_def x_def [symmetric] Let_def
      by (simp add: Graph_loop_below)
  next
    case False
    then have "\<not> 0 < int_of_float64 x" by (simp add: int_of_float64_pos)
    with False show ?thesis
      unfolding Graph_def x_def [symmetric] Let_def
      by (simp add: Graph_loop_none)
  qed
qed

lemma bars_50: "\<lfloor>float64 (float64 (float64 (of_int 50) / 100) * 30)\<rfloor> = 15"
  by code_simp

lemma Graph_50: "Graph 50 = (replicate 14 CHR ''='' @ ''> 50'', None)"
  by code_simp

lemma Graph_0: "Graph 0 = ('''', None)"
  by code_simp

text \<open>
  The rounding of \<^verbatim>\<open>float64\<close> shows at 410: in exact arithmetic \<open>410 / 100 * 30\<close> is
  123, the \<^verbatim>\<open>float64\<close> product lies just below it, and the graph has 122 bars.
\<close>

lemma bars_410:
  "\<lfloor>float64 (float64 (float64 (of_int 410) / 100) * 30)\<rfloor> = 122"
  by code_simp

lemma exact_410: "\<lfloor>(of_int 410 / 100 * 30 :: rat)\<rfloor> = 123"
  by simp

lemma Graph_410: "Graph 410 = (replicate 121 CHR ''='' @ ''> 410'', None)"
  by code_simp

text \<open>
  C8. For every integer \<open>v\<close>, \<^verbatim>\<open>Graph\<close> returns no error and a string fixed by
  \<open>bars\<close>, the floor of \<open>v / 100.0 * 30\<close> computed in \<^verbatim>\<open>float64\<close>: the empty string
  when \<open>bars \<le> 0\<close>, and otherwise \<open>bars - 1\<close> characters \<^verbatim>\<open>=\<close> followed, in the place
  of the last bar, by \<^verbatim>\<open>> \<close> and \<open>v\<close> in decimal. For 50 there are 15 bars, that is 14
  characters \<^verbatim>\<open>=\<close> and the label \<^verbatim>\<open>> 50\<close>; for 0 the string is empty.
\<close>

theorem Graph_bars:
  "(\<forall>v. Graph v =
      (let bars = \<lfloor>float64 (float64 (float64 (of_int v) / 100) * 30)\<rfloor>
       in if bars \<le> 0 then ('''', None)
          else (replicate (nat (bars - 1)) CHR ''='' @ ''> '' @ decimal v, None)))
   \<and> \<lfloor>float64 (float64 (float64 (of_int 50) / 100) * 30)\<rfloor> = 15
   \<and> Graph 50 = (replicate 14 CHR ''='' @ ''> 50'', None)
   \<and> Graph 0 = ('''', None)"
  using Graph_floor bars_50 Graph_50 Graph_0 by blast

section \<open>The identifier function\<close>

lemma NewWriter_funcMap_id:
  "funcMap (NewWriter E values config) ''id'' = Some (FnString (id_func config))"
  by (simp add: NewWriter_def Let_def split_def)

text \<open>
  C7. The function \<^verbatim>\<open>NewWriter\<close> registers under the name \<^verbatim>\<open>id\<close> never returns
  an error; it returns its argument unchanged when \<^verbatim>\<open>NoTrunc\<close> or \<^verbatim>\<open>Quiet\<close> is
  set; otherwise it returns the first 12 characters of an argument longer than 12
  characters, and an argument of at most 12 characters unchanged.
\<close>

theorem id_contract:
  "\<exists>f. funcMap (NewWriter E values config) ''id'' = Some (FnString f) \<and>
     (\<forall>s. snd (f s) = None \<and>
        (cfg_NoTrunc config \<or> cfg_Quiet config \<longrightarrow> fst (f s) = s) \<and>
        (\<not> cfg_NoTrunc config \<and> \<not> cfg_Quiet config \<and> length s > 12 \<longrightarrow>
           fst (f s) = take 12 s \<and> length (fst (f s)) = 12) \<and>
        (\<not> cfg_NoTrunc config \<and> \<not> cfg_Quiet config \<and> length s \<le> 12 \<longrightarrow> fst (f s) = s))"
proof (intro exI conjI allI)
  show "funcMap (NewWriter E values config) ''id'' = Some (FnString (id_func config))"
    by (rule NewWriter_funcMap_id)
qed (auto simp: id_func_def)

theorem id_contract_witness:
  "\<exists>f. funcMap (NewWriter sample_env sample_columns sample_config) ''id'' = Some (FnString f) \<and>
     f ''abcdef0123456789'' = (''abcdef012345'', None) \<and> f ''abcdef'' = (''abcdef'', None)"
proof -
  obtain f where f: "funcMap (NewWriter sample_env sample_columns sample_config) ''id'' = Some (FnString f)"
    and c: "\<forall>s. snd (f s) = None \<and>
        (cfg_NoTrunc sample_config \<or> cfg_Quiet sample_config \<longrightarrow> fst (f s) = s) \<and>
        (\<not> cfg_NoTrunc sample_config \<and> \<not> cfg_Quiet sample_config \<and> length s > 12 \<longrightarrow>
           fst (f s) = take 12 s \<and> length (fst (f s)) = 12) \<and>
        (\<not> cfg_NoTrunc sample_config \<and> \<not> cfg_Quiet sample_config \<and> length s \<le> 12 \<longrightarrow> fst (f s) = s)"
    using id_contract [of sample_env sample_columns sample_config] by blast
  have "f ''abcdef0123456789'' = (''abcdef012345'', None)"
    using c [rule_format, of "''abcdef0123456789''"]
    by (cases "f ''abcdef0123456789''") (simp add: sample_config_def)
  moreover have "f ''abcdef'' = (''abcdef'', None)"
    using c [rule_format, of "''abcdef''"]
    by (cases "f ''abcdef''") (simp add: sample_config_def)
  ultimately show ?thesis using f by blast
qed

section \<open>The pointer function\<close>

lemma Pointer_cases:
  "Pointer E v =
     (if \<not> nilable (reflect_Kind v) then Inl (ValueError ''reflect.Value.IsNil'' (reflect_Kind v))
      else if nil_reference v then Inr '''' else Inr (fmt_Sprint E v))"
  by (simp add: Pointer_def reflect_IsNil_def)

text \<open>
  C10. \<^verbatim>\<open>Pointer\<close> is not total. It panics, in \<^verbatim>\<open>reflect.Value.IsNil\<close>, on the nil
  interface, on an integer, on a string and on every value whose kind has no nil value; on
  the kinds that have one (slice, map, pointer, channel, function, unsafe pointer) it
  returns the empty string for the nil value and the printed form of any other value.
\<close>

theorem Pointer_partial:
  "Pointer E NilInterface = Inl (ValueError ''reflect.Value.IsNil'' KInvalid)
   \<and> Pointer E (IntV i) = Inl (ValueError ''reflect.Value.IsNil'' KInt)
   \<and> Pointer E (StringV s) = Inl (ValueError ''reflect.Value.IsNil'' KString)
   \<and> (\<forall>v. \<not> nilable (reflect_Kind v) \<longrightarrow>
          Pointer E v = Inl (ValueError ''reflect.Value.IsNil'' (reflect_Kind v)))
   \<and> (\<forall>v. nilable (reflect_Kind v) \<and> nil_reference v \<longrightarrow> Pointer E v = Inr '''')
   \<and> (\<forall>v. nilable (reflect_Kind v) \<and> \<not> nil_reference v \<longrightarrow> Pointer E v = Inr (fmt_Sprint E v))
   \<and> (\<forall>v. nilable (reflect_Kind v) \<longleftrightarrow>
          (\<exists>x. v = SliceV x) \<or> (\<exists>x. v = MapV x) \<or> (\<exists>x. v = PointerV x) \<or>
          (\<exists>x. v = ChanV x) \<or> (\<exists>x. v = FuncV x) \<or> (\<exists>x. v = UnsafePointerV x))"
proof -
  have "nilable (reflect_Kind v) \<longleftrightarrow>
          (\<exists>x. v = SliceV x) \<or> (\<exists>x. v = MapV x) \<or> (\<exists>x. v = PointerV x) \<or>
          (\<exists>x. v = ChanV x) \<or> (\<exists>x. v = FuncV x) \<or> (\<exists>x. v = UnsafePointerV x)" for v
    by (cases v) (simp_all add: nilable_def)
  then show ?thesis
    by (simp add: Pointer_cases nilable_def)
qed

theorem Pointer_partial_witness:
  "Pointer sample_env (BoolV True) = Inl (ValueError ''reflect.Value.IsNil'' KBool)
   \<and> Pointer sample_env (PointerV None) = Inr ''''
   \<and> Pointer sample_env (PointerV (Some (IntV 7))) = Inr ''0xc000012345''"
proof -
  have a: "\<not> nilable (reflect_Kind (BoolV True))" by (simp add: nilable_def)
  have b: "nilable (reflect_Kind (PointerV None)) \<and> nil_reference (PointerV None)"
    by (simp add: nilable_def)
  have c: "nilable (reflect_Kind (PointerV (Some (IntV 7)))) \<and> \<not> nil_reference (PointerV (Some (IntV 7)))"
    by (simp add: nilable_def)
  show ?thesis
    using Pointer_partial [of sample_env] a b c
    by (simp add: sample_env_def sample_Sprint_def)
qed

section \<open>Quiet mode\<close>

lemma idFormat_find:
  "idFormat E idColumn values =
     (case find (\<lambda>vals. length vals > 1 \<and> vals ! 0 = idColumn) values of
        None \<Rightarrow> ''''
      | Some vals \<Rightarrow> SimpleColumnFormat E (vals ! 1) @ newline)"
  by (induction "values") simp_all

lemma NewWriter_quiet:
  "cfg_Quiet config \<Longrightarrow> cfg_Format config = '''' \<Longrightarrow>
   HeaderFormat (NewWriter E values config) = '''' \<and>
   ValueFormat (NewWriter E values config) = idFormat E (cfg_IDColumn config) values"
  by (simp add: NewWriter_def Let_def split_def)

lemma stated_idFormat_rows:
  "\<forall>vals \<in> set values. length vals > 1 \<Longrightarrow>
   stated_idFormat E idColumn values = Some (idFormat E idColumn values)"
proof (induction "values")
  case Nil
  show ?case by (simp add: stated_idFormat_def)
next
  case (Cons vals rest)
  then have two: "length vals > 1" and rest: "\<forall>vals \<in> set rest. length vals > 1"
    by simp_all
  from two have ne: "vals \<noteq> []" by auto
  show ?case
  proof (cases "vals ! 0 = idColumn")
    case True
    with two ne show ?thesis by (simp add: stated_idFormat_def)
  next
    case False
    with Cons.IH [OF rest] show ?thesis by (simp add: stated_idFormat_def)
  qed
qed

text \<open>
  C6. With \<^verbatim>\<open>Quiet\<close> set and an empty \<^verbatim>\<open>Format\<close>, construction leaves the header
  template empty. On a ColumnSpec whose rows have a name and a template, the value template
  is the value template of the first row whose first cell equals \<^verbatim>\<open>IDColumn\<close>, with a
  newline appended, and it is empty when no row's first cell equals \<^verbatim>\<open>IDColumn\<close>. On
  any rows, the code looks at the rows of at least two cells only: the value template is
  the column template (\<^verbatim>\<open>SimpleColumnFormat\<close> of the second cell) of the first of them
  whose first cell equals \<^verbatim>\<open>IDColumn\<close>, with a newline appended, and empty when there
  is none.
\<close>

theorem quiet_templates:
  assumes "cfg_Quiet config" and "cfg_Format config = ''''"
  shows "HeaderFormat (NewWriter E values config) = '''' \<and>
         ValueFormat (NewWriter E values config) =
           (case find (\<lambda>vals. length vals > 1 \<and> vals ! 0 = cfg_IDColumn config) values of
              None \<Rightarrow> ''''
            | Some vals \<Rightarrow> SimpleColumnFormat E (vals ! 1) @ newline) \<and>
         ((\<forall>vals \<in> set values. length vals > 1) \<longrightarrow>
            stated_idFormat E (cfg_IDColumn config) values =
              Some (ValueFormat (NewWriter E values config)))"
  using NewWriter_quiet [OF assms] stated_idFormat_rows [of "values" E "cfg_IDColumn config"]
  by (simp add: idFormat_find)

theorem quiet_templates_witness:
  "cfg_Quiet (sample_config\<lparr>cfg_Quiet := True\<rparr>) \<and>
   cfg_Format (sample_config\<lparr>cfg_Quiet := True\<rparr>) = '''' \<and>
   map length sample_columns = [2, 2] \<and>
   HeaderFormat (NewWriter sample_env sample_columns (sample_config\<lparr>cfg_Quiet := True\<rparr>)) = '''' \<and>
   ValueFormat (NewWriter sample_env sample_columns (sample_config\<lparr>cfg_Quiet := True\<rparr>)) = ''id'' @ newline \<and>
   stated_idFormat sample_env ''ID'' sample_columns = Some (''id'' @ newline) \<and>
   ValueFormat (NewWriter sample_env sample_columns (sample_config\<lparr>cfg_Quiet := True, cfg_IDColumn := ''SIZE''\<rparr>)) = ''''"
proof -
  have q: "cfg_Quiet (sample_config\<lparr>cfg_Quiet := True\<rparr>)" by simp
  have f: "cfg_Format (sample_config\<lparr>cfg_Quiet := True\<rparr>) = ''''" by (simp add: sample_config_def)
  have q': "cfg_Quiet (sample_config\<lparr>cfg_Quiet := True, cfg_IDColumn := ''SIZE''\<rparr>)" by simp
  have f': "cfg_Format (sample_config\<lparr>cfg_Quiet := True, cfg_IDColumn := ''SIZE''\<rparr>) = ''''"
    by (simp add: sample_config_def)
  have r: "\<forall>vals \<in> set sample_columns. length vals > 1" by (simp add: sample_columns_def)
  have i: "cfg_IDColumn (sample_config\<lparr>cfg_Quiet := True\<rparr>) = ''ID''" by (simp add: sample_config_def)
  note A = quiet_templates [OF q f, of sample_env sample_columns]
  note B = quiet_templates [OF q' f', of sample_env sample_columns]
  have v: "ValueFormat (NewWriter sample_env sample_columns (sample_config\<lparr>cfg_Quiet := True\<rparr>))
      = ''id'' @ newline"
    using A by (simp add: sample_config_def sample_columns_def sample_env_def)
  have s: "stated_idFormat sample_env ''ID'' sample_columns = Some (''id'' @ newline)"
    using A r i v by simp
  have h: "HeaderFormat (NewWriter sample_env sample_columns (sample_config\<lparr>cfg_Quiet := True\<rparr>)) = ''''"
    using A by blast
  have w: "ValueFormat (NewWriter sample_env sample_columns
      (sample_config\<lparr>cfg_Quiet := True, cfg_IDColumn := ''SIZE''\<rparr>)) = ''''"
    using B by (simp add: sample_config_def sample_columns_def sample_env_def)
  have l: "map length sample_columns = [2, 2]" by (simp add: sample_columns_def)
  from q f l h v s w show ?thesis by blast
qed

section \<open>Construction and the sink\<close>

lemma NewWriter_initial [simp]:
  "\<not> headerPrinted (NewWriter E values config)"
  "err (NewWriter E values config) = None"
  "\<not> closed_flag (NewWriter E values config)"
  by (simp_all add: NewWriter_def Let_def split_def)

lemma NewWriter_tagged:
  "cfg_Format config \<in> {''json'', ''jsoncompact'', ''yaml''} \<Longrightarrow>
   HeaderFormat (NewWriter E values config) = '''' \<and>
   ValueFormat (NewWriter E values config) = cfg_Format config"
  by (auto simp: NewWriter_def Let_def split_def)

lemma NewWriter_raw:
  "cfg_Format config = ''raw'' \<Longrightarrow>
   HeaderFormat (NewWriter E values config) =
     (if cfg_Quiet config then '''' else fst (SimpleFormat E values)) \<and>
   Writer (NewWriter E values config) = cfg_Writer config"
  by (simp add: NewWriter_def Let_def split_def)

lemma NewWriter_sink:
  "cfg_Format config \<noteq> ''raw'' \<Longrightarrow>
   Writer (NewWriter E values config) = TabWriter (cfg_Writer config) 10 1 3 CHR '' '' 0 []"
  by (simp add: NewWriter_def tabwriter_NewWriter_def Let_def split_def)

lemma calls_called [simp]: "calls (called c out) = calls out @ [c]"
  by (cases out) simp_all

lemma is_tabwriter_called [simp]: "is_tabwriter (called c out) = is_tabwriter out"
  by (cases out) simp_all

lemma flushes_append [simp]: "flushes (cs @ ds) = flushes cs + flushes ds"
  by (induction cs rule: flushes.induct) simp_all

lemma written_append [simp]: "written (cs @ ds) = written cs @ written ds"
  by (induction cs rule: written.induct) simp_all

section \<open>The sample writers\<close>

text \<open>The writer of the sample columns in table mode, and in raw mode on the stream.\<close>

lemma sample_NewWriter:
  "NewWriter E sample_columns sample_config =
   \<lparr>closed_flag = False, HeaderFormat = fst (SimpleFormat E sample_columns),
    ValueFormat = snd (SimpleFormat E sample_columns), err = None,
    headerPrinted = False,
    Writer = TabWriter (Stream []) 10 1 3 CHR '' '' 0 [],
    funcMap = (sprig_TxtFuncMap E ++ localFuncMap E)(''id'' \<mapsto> FnString (id_func sample_config))\<rparr>"
  by (simp add: NewWriter_def tabwriter_NewWriter_def sample_config_def Let_def split_def)

lemma sample_raw_NewWriter:
  "NewWriter E sample_columns sample_raw_config =
   \<lparr>closed_flag = False, HeaderFormat = fst (SimpleFormat E sample_columns),
    ValueFormat = snd (SimpleFormat E sample_columns), err = None,
    headerPrinted = False,
    Writer = Stream [],
    funcMap = (sprig_TxtFuncMap E ++ localFuncMap E)(''id'' \<mapsto> FnString (id_func sample_raw_config))\<rparr>"
  by (simp add: NewWriter_def sample_raw_config_def sample_config_def Let_def split_def)

lemma sample_header:
  "fst (sample_SimpleFormat sample_columns) = ''NAME'' @ [CHR 0x09] @ ''ID'' @ newline"
  "snd (sample_SimpleFormat sample_columns) = ''name'' @ [CHR 0x09] @ ''id'' @ newline"
  by (simp_all add: sample_SimpleFormat_def sample_columns_def)

text \<open>
  In raw mode on the broken stream the first \<^verbatim>\<open>Write\<close> fails at the header: the header
  is handed to the stream, the write is refused, and the error is stored.
\<close>

lemma sample_raw_header_fails:
  "snd (printTemplate sample_env_broken_pipe
          (NewWriter sample_env_broken_pipe sample_columns sample_raw_config\<lparr>headerPrinted := True\<rparr>)
          (Writer (NewWriter sample_env_broken_pipe sample_columns sample_raw_config))
          (HeaderFormat (NewWriter sample_env_broken_pipe sample_columns sample_raw_config))
          (StructV [])) = Some broken_pipe"
  by (simp add: sample_raw_NewWriter printTemplate_def sink_Write_def sample_env_broken_pipe_def
      sample_env_def sample_Execute_def sample_header split_def)

lemma sample_raw_write_fails:
  "run sample_env_broken_pipe (NewWriter sample_env_broken_pipe sample_columns sample_raw_config)
     [CallWrite (StructV [])] =
   \<lparr>closed_flag = False, HeaderFormat = ''NAME'' @ [CHR 0x09] @ ''ID'' @ newline,
    ValueFormat = ''name'' @ [CHR 0x09] @ ''id'' @ newline, err = Some broken_pipe,
    headerPrinted = True,
    Writer = Stream [WriteCall (''NAME'' @ [CHR 0x09] @ ''ID'' @ newline)],
    funcMap = (sprig_TxtFuncMap sample_env_broken_pipe ++ localFuncMap sample_env_broken_pipe)
                (''id'' \<mapsto> FnString (id_func sample_raw_config))\<rparr>"
  by (simp add: sample_raw_NewWriter Write_def writeHeader_def printTemplate_def sink_Write_def
      sample_env_broken_pipe_def sample_env_def sample_Execute_def sample_header Let_def split_def)

section \<open>What a call leaves alone\<close>

lemma writeHeader_frame [simp]:
  "HeaderFormat (writeHeader E t) = HeaderFormat t"
  "ValueFormat (writeHeader E t) = ValueFormat t"
  "closed_flag (writeHeader E t) = closed_flag t"
  "funcMap (writeHeader E t) = funcMap t"
  by (simp_all add: writeHeader_def Let_def split_def)

lemma writeHeader_idle: "HeaderFormat t = '''' \<or> headerPrinted t \<Longrightarrow> writeHeader E t = t"
  by (auto simp: writeHeader_def)

lemma writeHeader_renders:
  "HeaderFormat t \<noteq> '''' \<Longrightarrow> \<not> headerPrinted t \<Longrightarrow>
   writeHeader E t =
     t\<lparr>headerPrinted := True,
       Writer := fst (printTemplate E (t\<lparr>headerPrinted := True\<rparr>) (Writer t) (HeaderFormat t) (StructV [])),
       err := snd (printTemplate E (t\<lparr>headerPrinted := True\<rparr>) (Writer t) (HeaderFormat t) (StructV []))\<rparr>"
  by (simp add: writeHeader_def Let_def split_def)

lemma headerPrinted_writeHeader:
  "headerPrinted (writeHeader E t) \<longleftrightarrow> headerPrinted t \<or> HeaderFormat t \<noteq> ''''"
  by (simp add: writeHeader_def Let_def split_def)

lemma Write_frame [simp]:
  "HeaderFormat (fst (Write E t obj)) = HeaderFormat t"
  "ValueFormat (fst (Write E t obj)) = ValueFormat t"
  "closed_flag (fst (Write E t obj)) = closed_flag t"
  "funcMap (fst (Write E t obj)) = funcMap t"
  by (simp_all add: Write_def Let_def split_def split: option.splits)

lemma Write_errored: "err t \<noteq> None \<Longrightarrow> Write E t obj = (t, None)"
  by (simp add: Write_def)

lemma headerPrinted_Write:
  "headerPrinted (fst (Write E t obj)) \<longleftrightarrow>
     headerPrinted t \<or> (HeaderFormat t \<noteq> '''' \<and> err t = None)"
  by (auto simp: Write_def Let_def split_def headerPrinted_writeHeader split: option.splits)

lemma Close_frame [simp]:
  "HeaderFormat (fst (Close E t)) = HeaderFormat t"
  "ValueFormat (fst (Close E t)) = ValueFormat t"
  "funcMap (fst (Close E t)) = funcMap t"
  by (simp_all add: Close_def Let_def split_def)

lemma Close_closed: "closed_flag t \<Longrightarrow> Close E t = (t, err t)"
  by (simp add: Close_def)

lemma Close_errored: "err t \<noteq> None \<Longrightarrow> Close E t = (t, err t)"
  by (simp add: Close_def)

lemma headerPrinted_Close:
  "headerPrinted (fst (Close E t)) \<longleftrightarrow>
     headerPrinted t \<or> (HeaderFormat t \<noteq> '''' \<and> err t = None \<and> \<not> closed_flag t)"
  by (auto simp: Close_def Let_def split_def headerPrinted_writeHeader)

lemma step_frame [simp]:
  "HeaderFormat (step E t c) = HeaderFormat t"
  "ValueFormat (step E t c) = ValueFormat t"
  by (cases c; simp add: Err_def AddFormatFunc_def)+

lemma run_frame [simp]:
  "HeaderFormat (run E t cs) = HeaderFormat t"
  "ValueFormat (run E t cs) = ValueFormat t"
  by (induction cs arbitrary: t; simp)+

lemma run_append: "run E t (cs @ ds) = run E (run E t cs) ds"
  by (induction cs arbitrary: t) simp_all

lemma headerPrinted_step:
  "headerPrinted (step E t c) \<longleftrightarrow>
     headerPrinted t \<or>
     (HeaderFormat t \<noteq> '''' \<and> err t = None \<and>
      ((\<exists>obj. c = CallWrite obj) \<or> ((c = CallClose \<or> c = CallErr) \<and> \<not> closed_flag t)))"
  by (cases c) (auto simp: headerPrinted_Write headerPrinted_Close Err_def AddFormatFunc_def)

section \<open>The sticky error\<close>

lemma step_errored: "err t \<noteq> None \<Longrightarrow> Writer (step E t c) = Writer t \<and> err (step E t c) = err t"
  by (cases c) (simp_all add: Write_errored Close_errored Err_def AddFormatFunc_def)

lemma run_errored: "err t \<noteq> None \<Longrightarrow> Writer (run E t cs) = Writer t \<and> err (run E t cs) = err t"
proof (induction cs arbitrary: t)
  case Nil
  then show ?case by simp
next
  case (Cons c cs)
  from Cons.prems have s: "Writer (step E t c) = Writer t" "err (step E t c) = err t"
    using step_errored by blast+
  with Cons.prems have "err (step E t c) \<noteq> None" by simp
  from Cons.IH [OF this] s show ?case by simp
qed

text \<open>
  C1. Once the sticky error is set, after any sequence of calls \<open>cs\<close>, no further call
  reaches the sink: whatever calls \<open>ds\<close> follow, the sink, with the calls made on it, and
  the error are what they were; a \<^verbatim>\<open>Write\<close> changes nothing (and does not panic) and a
  \<^verbatim>\<open>Close\<close> returns the stored error and changes nothing.
\<close>

theorem sticky_error_silences_sink:
  assumes "err (run E t cs) \<noteq> None"
  shows "Writer (run E t (cs @ ds)) = Writer (run E t cs)
       \<and> calls (Writer (run E t (cs @ ds))) = calls (Writer (run E t cs))
       \<and> err (run E t (cs @ ds)) = err (run E t cs)
       \<and> Write E (run E t cs) obj = (run E t cs, None)
       \<and> Close E (run E t cs) = (run E t cs, err (run E t cs))"
  using run_errored [OF assms, where cs = ds] assms
  by (simp add: run_append Write_errored Close_errored)

theorem sticky_error_silences_sink_witness:
  "err (run sample_env_broken_pipe
          (NewWriter sample_env_broken_pipe sample_columns sample_raw_config)
          [CallWrite (StructV [])]) = Some broken_pipe
   \<and> calls (Writer (run sample_env_broken_pipe
          (NewWriter sample_env_broken_pipe sample_columns sample_raw_config)
          ([CallWrite (StructV [])] @ [CallWrite (IntV 7), CallClose, CallWrite (StructV [])])))
       = [WriteCall (''NAME'' @ [CHR 0x09] @ ''ID'' @ newline)]"
proof -
  have e: "err (run sample_env_broken_pipe
          (NewWriter sample_env_broken_pipe sample_columns sample_raw_config)
          [CallWrite (StructV [])]) \<noteq> None"
    by (simp only: sample_raw_write_fails) simp
  show ?thesis
    using sticky_error_silences_sink [OF e, of "[CallWrite (IntV 7), CallClose, CallWrite (StructV [])]"]
    by (simp only: sample_raw_write_fails) simp
qed

section \<open>The header flag\<close>

lemma rises_Cons_states:
  "rises (a # map headerPrinted (states E t cs)) =
     (if \<not> a \<and> headerPrinted t then 1 else 0) + rises (map headerPrinted (states E t cs))"
  by (cases cs) simp_all

lemma rises_printed: "headerPrinted t \<Longrightarrow> rises (map headerPrinted (states E t cs)) = 0"
proof (induction cs arbitrary: t)
  case Nil
  then show ?case by simp
next
  case (Cons c cs)
  then have "headerPrinted (step E t c)" by (simp add: headerPrinted_step)
  from Cons.IH [OF this] Cons.prems show ?case by (simp add: rises_Cons_states)
qed

lemma rises_le_1: "rises (map headerPrinted (states E t cs)) \<le> 1"
proof (induction cs arbitrary: t)
  case Nil
  show ?case by simp
next
  case (Cons c cs)
  show ?case
  proof (cases "headerPrinted (step E t c)")
    case True
    then show ?thesis by (simp add: rises_Cons_states rises_printed)
  next
    case False
    with Cons.IH [of "step E t c"] show ?thesis by (simp add: rises_Cons_states)
  qed
qed

lemma Write_header_fails:
  assumes "HeaderFormat t \<noteq> ''''" and "\<not> headerPrinted t" and "err t = None"
    and "snd (printTemplate E (t\<lparr>headerPrinted := True\<rparr>) (Writer t) (HeaderFormat t) (StructV [])) = Some e"
  shows "headerPrinted (fst (Write E t obj)) \<and> err (fst (Write E t obj)) = Some e"
proof -
  have "err (writeHeader E t) = Some e" "headerPrinted (writeHeader E t)"
    using assms by (simp_all add: writeHeader_renders)
  moreover have "Write E t obj = (writeHeader E t, None)"
    using assms(3) \<open>err (writeHeader E t) = Some e\<close> by (simp add: Write_def Let_def)
  ultimately show ?thesis by simp
qed

text \<open>
  C2, as the code has it. Along any sequence of calls the flag \<^verbatim>\<open>headerPrinted\<close> goes
  from false to true at most once. It is set after a call exactly when it was set before
  or the call renders the header: the header template is not empty, no error is stored,
  and the call is a \<^verbatim>\<open>Write\<close>, or a \<^verbatim>\<open>Close\<close> or \<^verbatim>\<open>Err\<close> on a writer that is
  not closed. The flag is set before the header is rendered, whatever the outcome: when
  the render fails, the flag is set and the error is stored.
\<close>

theorem headerPrinted_once:
  "rises (map headerPrinted (states E t cs)) \<le> 1
   \<and> (\<forall>c. headerPrinted (step E t c) \<longleftrightarrow>
          headerPrinted t \<or>
          (HeaderFormat t \<noteq> '''' \<and> err t = None \<and>
           ((\<exists>obj. c = CallWrite obj) \<or> ((c = CallClose \<or> c = CallErr) \<and> \<not> closed_flag t))))
   \<and> (\<forall>obj e. HeaderFormat t \<noteq> '''' \<and> \<not> headerPrinted t \<and> err t = None \<and>
          snd (printTemplate E (t\<lparr>headerPrinted := True\<rparr>) (Writer t) (HeaderFormat t) (StructV []))
            = Some e
        \<longrightarrow> headerPrinted (fst (Write E t obj)) \<and> err (fst (Write E t obj)) = Some e)"
  using rises_le_1 [of E t cs] headerPrinted_step [of E t] Write_header_fails [of t E]
  by blast

theorem headerPrinted_once_witness:
  "rises (map headerPrinted
      (states sample_env_broken_pipe (NewWriter sample_env_broken_pipe sample_columns sample_raw_config)
         [CallWrite (StructV []), CallWrite (IntV 7), CallClose])) \<le> 1
   \<and> headerPrinted (fst (Write sample_env_broken_pipe
        (NewWriter sample_env_broken_pipe sample_columns sample_raw_config) (StructV [])))
   \<and> err (fst (Write sample_env_broken_pipe
        (NewWriter sample_env_broken_pipe sample_columns sample_raw_config) (StructV []))) = Some broken_pipe"
proof -
  have h: "HeaderFormat (NewWriter sample_env_broken_pipe sample_columns sample_raw_config) \<noteq> ''''"
    by (simp add: sample_raw_NewWriter sample_env_broken_pipe_def sample_env_def sample_header)
  have p: "\<not> headerPrinted (NewWriter sample_env_broken_pipe sample_columns sample_raw_config)"
    by (simp add: sample_raw_NewWriter)
  have e: "err (NewWriter sample_env_broken_pipe sample_columns sample_raw_config) = None"
    by (simp add: sample_raw_NewWriter)
  show ?thesis
    using headerPrinted_once [of sample_env_broken_pipe
        "NewWriter sample_env_broken_pipe sample_columns sample_raw_config"
        "[CallWrite (StructV []), CallWrite (IntV 7), CallClose]"]
      h p e sample_raw_header_fails
    by blast
qed

text \<open>
  In raw mode on a stream that refuses the write, the header render of the first
  \<^verbatim>\<open>Write\<close> fails, and the flag is set all the same.
\<close>

theorem headerPrinted_failed_render_counterexample:
  "cfg_Format sample_raw_config = ''raw''
   \<and> Writer (NewWriter sample_env_broken_pipe sample_columns sample_raw_config) = Stream []
   \<and> \<not> headerPrinted (NewWriter sample_env_broken_pipe sample_columns sample_raw_config)
   \<and> snd (printTemplate sample_env_broken_pipe
          (NewWriter sample_env_broken_pipe sample_columns sample_raw_config\<lparr>headerPrinted := True\<rparr>)
          (Writer (NewWriter sample_env_broken_pipe sample_columns sample_raw_config))
          (HeaderFormat (NewWriter sample_env_broken_pipe sample_columns sample_raw_config))
          (StructV [])) = Some broken_pipe
   \<and> headerPrinted (fst (Write sample_env_broken_pipe
        (NewWriter sample_env_broken_pipe sample_columns sample_raw_config) (StructV [])))
   \<and> err (fst (Write sample_env_broken_pipe
        (NewWriter sample_env_broken_pipe sample_columns sample_raw_config) (StructV []))) = Some broken_pipe"
proof -
  have f: "cfg_Format sample_raw_config = ''raw''"
    by (simp add: sample_raw_config_def)
  have s: "Writer (NewWriter sample_env_broken_pipe sample_columns sample_raw_config) = Stream []"
    by (simp add: sample_raw_NewWriter)
  have h: "HeaderFormat (NewWriter sample_env_broken_pipe sample_columns sample_raw_config) \<noteq> ''''"
    by (simp add: sample_raw_NewWriter sample_env_broken_pipe_def sample_env_def sample_header)
  have p: "\<not> headerPrinted (NewWriter sample_env_broken_pipe sample_columns sample_raw_config)"
    by (simp add: sample_raw_NewWriter)
  have e: "err (NewWriter sample_env_broken_pipe sample_columns sample_raw_config) = None"
    by (simp add: sample_raw_NewWriter)
  from Write_header_fails [OF h p e sample_raw_header_fails] f s p sample_raw_header_fails
  show ?thesis by blast
qed

section \<open>Modes without a header\<close>

lemma headerPrinted_run:
  "headerPrinted (run E t cs) \<Longrightarrow> headerPrinted t \<or> HeaderFormat t \<noteq> ''''"
proof (induction cs arbitrary: t)
  case Nil
  then show ?case by simp
next
  case (Cons c cs)
  from Cons.IH [of "step E t c"] Cons.prems
  have "headerPrinted (step E t c) \<or> HeaderFormat t \<noteq> ''''" by simp
  then show ?case by (auto simp: headerPrinted_step)
qed

text \<open>
  C3, as the code has it. For the formats \<^verbatim>\<open>json\<close>, \<^verbatim>\<open>jsoncompact\<close> and
  \<^verbatim>\<open>yaml\<close> the header template is empty, the flag \<^verbatim>\<open>headerPrinted\<close> is never set
  and the header step of every call does nothing. The format \<^verbatim>\<open>raw\<close> leaves the
  header template as the earlier steps made it: empty in quiet mode, the layout's header
  otherwise; the flag can only be set when that header is not empty and the writer is not
  quiet, and then the first \<^verbatim>\<open>Write\<close> sets it.
\<close>

theorem header_by_format:
  "(cfg_Format config \<in> {''json'', ''jsoncompact'', ''yaml''} \<longrightarrow>
      HeaderFormat (NewWriter E values config) = '''' \<and>
      \<not> headerPrinted (run E (NewWriter E values config) cs) \<and>
      writeHeader E (run E (NewWriter E values config) cs) = run E (NewWriter E values config) cs)
   \<and> (cfg_Format config = ''raw'' \<longrightarrow>
      HeaderFormat (NewWriter E values config) =
        (if cfg_Quiet config then '''' else fst (SimpleFormat E values)) \<and>
      (headerPrinted (run E (NewWriter E values config) cs) \<longrightarrow>
         \<not> cfg_Quiet config \<and> fst (SimpleFormat E values) \<noteq> '''') \<and>
      (\<not> cfg_Quiet config \<and> fst (SimpleFormat E values) \<noteq> '''' \<longrightarrow>
         headerPrinted (fst (Write E (NewWriter E values config) obj))))"
proof (intro conjI impI)
  assume f: "cfg_Format config \<in> {''json'', ''jsoncompact'', ''yaml''}"
  then show h: "HeaderFormat (NewWriter E values config) = ''''"
    using NewWriter_tagged by blast
  then show "\<not> headerPrinted (run E (NewWriter E values config) cs)"
    using headerPrinted_run [of E "NewWriter E values config" cs] by auto
  show "writeHeader E (run E (NewWriter E values config) cs) = run E (NewWriter E values config) cs"
    using h by (simp add: writeHeader_idle)
next
  assume r: "cfg_Format config = ''raw''"
  then show h: "HeaderFormat (NewWriter E values config) =
        (if cfg_Quiet config then '''' else fst (SimpleFormat E values))"
    using NewWriter_raw by blast
  {
    assume "headerPrinted (run E (NewWriter E values config) cs)"
    then have "HeaderFormat (NewWriter E values config) \<noteq> ''''"
      using headerPrinted_run [of E "NewWriter E values config" cs] by simp
    with h show "\<not> cfg_Quiet config" by auto
    from \<open>HeaderFormat (NewWriter E values config) \<noteq> ''''\<close> h
    show "fst (SimpleFormat E values) \<noteq> ''''" by (auto split: if_splits)
  }
  {
    assume "\<not> cfg_Quiet config \<and> fst (SimpleFormat E values) \<noteq> ''''"
    with h show "headerPrinted (fst (Write E (NewWriter E values config) obj))"
      by (simp add: headerPrinted_Write)
  }
qed

theorem header_by_format_witness:
  "cfg_Format (sample_config\<lparr>cfg_Format := ''json''\<rparr>) \<in> {''json'', ''jsoncompact'', ''yaml''}
   \<and> \<not> headerPrinted (run sample_env
        (NewWriter sample_env sample_columns (sample_config\<lparr>cfg_Format := ''json''\<rparr>))
        [CallWrite (StructV []), CallWrite (IntV 7), CallClose])
   \<and> cfg_Format (sample_config\<lparr>cfg_Format := ''raw'', cfg_Quiet := True\<rparr>) = ''raw''
   \<and> HeaderFormat (NewWriter sample_env sample_columns
        (sample_config\<lparr>cfg_Format := ''raw'', cfg_Quiet := True\<rparr>)) = ''''
   \<and> headerPrinted (fst (Write sample_env
        (NewWriter sample_env sample_columns (sample_config\<lparr>cfg_Format := ''raw''\<rparr>)) (IntV 7)))"
proof -
  have n: "cfg_Format (sample_config\<lparr>cfg_Format := ''raw''\<rparr>) = ''raw''
      \<and> \<not> cfg_Quiet (sample_config\<lparr>cfg_Format := ''raw''\<rparr>)
      \<and> fst (SimpleFormat sample_env sample_columns) \<noteq> ''''"
    by (simp add: sample_config_def sample_env_def sample_header)
  have j: "cfg_Format (sample_config\<lparr>cfg_Format := ''json''\<rparr>) \<in> {''json'', ''jsoncompact'', ''yaml''}"
    by simp
  have r: "cfg_Format (sample_config\<lparr>cfg_Format := ''raw'', cfg_Quiet := True\<rparr>) = ''raw''"
    by simp
  show ?thesis
    using j r
      header_by_format [of "sample_config\<lparr>cfg_Format := ''json''\<rparr>" sample_env sample_columns
        "[CallWrite (StructV []), CallWrite (IntV 7), CallClose]"]
      header_by_format [of "sample_config\<lparr>cfg_Format := ''raw'', cfg_Quiet := True\<rparr>" sample_env
        sample_columns "[]"]
      n header_by_format [of "sample_config\<lparr>cfg_Format := ''raw''\<rparr>" sample_env
        sample_columns "[]" "IntV 7"]
    by simp
qed

text \<open>
  In raw mode the first \<^verbatim>\<open>Write\<close> renders the header of the layout and hands it to
  the sink before the row.
\<close>

theorem raw_header_counterexample:
  "cfg_Format (sample_config\<lparr>cfg_Format := ''raw''\<rparr>) = ''raw''
   \<and> headerPrinted (fst (Write sample_env
        (NewWriter sample_env sample_columns (sample_config\<lparr>cfg_Format := ''raw''\<rparr>)) (StructV [])))
   \<and> calls (Writer (fst (Write sample_env
        (NewWriter sample_env sample_columns (sample_config\<lparr>cfg_Format := ''raw''\<rparr>)) (StructV []))))
     = [WriteCall (''NAME'' @ [CHR 0x09] @ ''ID'' @ newline),
        WriteCall (''name'' @ [CHR 0x09] @ ''id'' @ newline)]"
  by (simp add: NewWriter_def Write_def writeHeader_def printTemplate_def sink_Write_def
      sample_env_def sample_config_def sample_header sample_EncodeToMap_def sample_Execute_def
      Let_def split_def)

section \<open>Closing\<close>

lemma flushes_write_pieces [simp]:
  "flushes (calls (fst (write_pieces E out ps))) = flushes (calls out)"
  by (induction ps arbitrary: out) (simp_all add: sink_Write_def split: option.splits)

lemma flushes_printTemplate [simp]:
  "flushes (calls (fst (printTemplate E t out text obj))) = flushes (calls out)"
proof -
  have "flushes (calls (fst (case write_pieces E out ps of
          (out', Some e) \<Rightarrow> (out', Some e) | (out', None) \<Rightarrow> (out', xe)))) = flushes (calls out)"
    for ps xe
    using flushes_write_pieces [of E out ps]
    by (cases "write_pieces E out ps") (auto split: option.splits)
  then show ?thesis
    by (simp add: printTemplate_def split: option.splits prod.splits)
qed

lemma flushes_writeHeader [simp]:
  "flushes (calls (Writer (writeHeader E t))) = flushes (calls (Writer t))"
  by (simp add: writeHeader_def Let_def split_def)

lemma flushes_Write [simp]:
  "flushes (calls (Writer (fst (Write E t obj)))) = flushes (calls (Writer t))"
  by (simp add: Write_def Let_def split_def sink_Write_def split: option.splits)

lemma Close_settles: "closed_flag (fst (Close E t)) \<or> err (fst (Close E t)) \<noteq> None"
  by (simp add: Close_def Let_def split_def)

lemma Close_again: "Close E (fst (Close E t)) = (fst (Close E t), err (fst (Close E t)))"
  using Close_settles [of E t] Close_closed Close_errored by blast

lemma Close_stored:
  "\<not> Close_flush_fails E t \<Longrightarrow> snd (Close E t) = err (fst (Close E t))"
  by (auto simp: Close_flush_fails_def Close_def Let_def split_def sink_Flush_def)

lemma closed_step: "closed_flag t \<Longrightarrow> closed_flag (step E t c)"
  by (cases c) (simp_all add: Close_closed Err_def AddFormatFunc_def)

lemma flushes_step_closed:
  "closed_flag t \<Longrightarrow> flushes (calls (Writer (step E t c))) = flushes (calls (Writer t))"
  by (cases c) (simp_all add: Close_closed Err_def AddFormatFunc_def)

lemma flushes_run_closed:
  "closed_flag t \<Longrightarrow> flushes (calls (Writer (run E t cs))) = flushes (calls (Writer t))"
proof (induction cs arbitrary: t)
  case Nil
  show ?case by simp
next
  case (Cons c cs)
  from Cons.IH [OF closed_step [OF Cons.prems]] flushes_step_closed [OF Cons.prems]
  show ?case by simp
qed

lemma flushes_step:
  "flushes (calls (Writer (step E t c))) = flushes (calls (Writer t)) \<or>
   closed_flag (step E t c) \<and>
     flushes (calls (Writer (step E t c))) = Suc (flushes (calls (Writer t)))"
  by (cases c) (auto simp: Close_def Err_def AddFormatFunc_def Let_def split_def sink_Flush_def)

lemma flushes_run: "flushes (calls (Writer (run E t cs))) \<le> Suc (flushes (calls (Writer t)))"
proof (induction cs arbitrary: t)
  case Nil
  show ?case by simp
next
  case (Cons c cs)
  from flushes_step [of E t c] show ?case
  proof
    assume "flushes (calls (Writer (step E t c))) = flushes (calls (Writer t))"
    with Cons.IH [of "step E t c"] show ?thesis by simp
  next
    assume "closed_flag (step E t c) \<and>
      flushes (calls (Writer (step E t c))) = Suc (flushes (calls (Writer t)))"
    then show ?thesis using flushes_run_closed [of "step E t c" E cs] by simp
  qed
qed

lemma flushes_after_Close:
  "flushes (calls (Writer (run E (fst (Close E t)) cs))) = flushes (calls (Writer (fst (Close E t))))"
  using Close_settles [of E t] flushes_run_closed run_errored by metis

text \<open>\<^verbatim>\<open>Write\<close> and the functions it calls never read the closed flag.\<close>

lemma printTemplate_closed_flag [simp]:
  "printTemplate E (t\<lparr>closed_flag := b\<rparr>) out text obj = printTemplate E t out text obj"
proof -
  have f: "funcMap (t\<lparr>closed_flag := b\<rparr>) = funcMap t" by simp
  show ?thesis unfolding printTemplate_def f by (rule refl)
qed

lemma writeHeader_closed_flag:
  "writeHeader E (t\<lparr>closed_flag := b\<rparr>) = (writeHeader E t)\<lparr>closed_flag := b\<rparr>"
proof -
  have f: "funcMap (t\<lparr>closed_flag := b, headerPrinted := True\<rparr>) = funcMap (t\<lparr>headerPrinted := True\<rparr>)"
    by simp
  have "printTemplate E (t\<lparr>closed_flag := b, headerPrinted := True\<rparr>) out tmpl ctx =
      printTemplate E (t\<lparr>headerPrinted := True\<rparr>) out tmpl ctx" for out tmpl ctx
    unfolding printTemplate_def f by (rule refl)
  then show ?thesis
    by (simp add: writeHeader_def Let_def split_def)
qed

lemma Write_closed_flag:
  "Write E (t\<lparr>closed_flag := b\<rparr>) obj =
     (fst (Write E t obj)\<lparr>closed_flag := b\<rparr>, snd (Write E t obj))"
  by (simp add: Write_def writeHeader_closed_flag Let_def split_def split: option.splits)

text \<open>
  C4, as the code has it. A second \<^verbatim>\<open>Close\<close> changes nothing, so it neither writes
  nor flushes, and it returns the stored error; that is what the first \<^verbatim>\<open>Close\<close>
  returned, unless the first \<^verbatim>\<open>Close\<close> ended in a flush that failed. Over any sequence
  of calls the sink is flushed at most once, and never after a \<^verbatim>\<open>Close\<close>. Writing is
  another matter: \<^verbatim>\<open>Write\<close> does not read the closed flag, so on a closed writer it does
  what it does on an open one, and reaches the sink unless an error is stored. With an
  error stored, \<^verbatim>\<open>Close\<close> returns it and leaves the writer as it is, the sink and
  the closed flag included.
\<close>

theorem Close_twice:
  "Close E (fst (Close E t)) = (fst (Close E t), err (fst (Close E t)))
   \<and> (\<not> Close_flush_fails E t \<longrightarrow> snd (Close E (fst (Close E t))) = snd (Close E t))
   \<and> flushes (calls (Writer (run E t cs))) \<le> Suc (flushes (calls (Writer t)))
   \<and> flushes (calls (Writer (run E (fst (Close E t)) cs))) = flushes (calls (Writer (fst (Close E t))))
   \<and> Write E (t\<lparr>closed_flag := True\<rparr>) obj =
       (fst (Write E t obj)\<lparr>closed_flag := True\<rparr>, snd (Write E t obj))
   \<and> (err t \<noteq> None \<longrightarrow> Close E t = (t, err t))"
  using Close_again [of E t] Close_stored [of E t] flushes_run [of E t cs]
    flushes_after_Close [of E t cs] Close_errored [of t E] Write_closed_flag [where b = True]
  by simp

lemma sample_not_flush_fails:
  "\<not> Close_flush_fails sample_env (NewWriter sample_env sample_columns sample_config)"
  by (simp add: Close_flush_fails_def sample_env_def Let_def)

theorem Close_twice_witness:
  "\<not> Close_flush_fails sample_env (NewWriter sample_env sample_columns sample_config)
   \<and> snd (Close sample_env (fst (Close sample_env (NewWriter sample_env sample_columns sample_config))))
       = snd (Close sample_env (NewWriter sample_env sample_columns sample_config))
   \<and> flushes (calls (Writer (run sample_env (NewWriter sample_env sample_columns sample_config)
        [CallWrite (StructV []), CallClose, CallClose, CallErr]))) \<le> 1
   \<and> err (run sample_env_broken_pipe
        (NewWriter sample_env_broken_pipe sample_columns sample_raw_config) [CallWrite (StructV [])])
       = Some broken_pipe
   \<and> Close sample_env_broken_pipe
        (run sample_env_broken_pipe
           (NewWriter sample_env_broken_pipe sample_columns sample_raw_config) [CallWrite (StructV [])])
       = (run sample_env_broken_pipe
           (NewWriter sample_env_broken_pipe sample_columns sample_raw_config) [CallWrite (StructV [])],
          Some broken_pipe)"
proof -
  let ?t = "NewWriter sample_env sample_columns sample_config"
  let ?cs = "[CallWrite (StructV []), CallClose, CallClose, CallErr]"
  let ?u = "run sample_env_broken_pipe
      (NewWriter sample_env_broken_pipe sample_columns sample_raw_config) [CallWrite (StructV [])]"
  note T = Close_twice [of sample_env ?t ?cs]
  note U = Close_twice [of sample_env_broken_pipe ?u "[]"]
  have z: "flushes (calls (Writer ?t)) = 0"
    by (simp add: sample_NewWriter)
  have e: "err ?u = Some broken_pipe"
    by (simp only: sample_raw_write_fails) simp
  have a: "snd (Close sample_env (fst (Close sample_env ?t))) = snd (Close sample_env ?t)"
    using T sample_not_flush_fails by blast
  from T have "flushes (calls (Writer (run sample_env ?t ?cs))) \<le> Suc (flushes (calls (Writer ?t)))"
    by blast
  with z have b: "flushes (calls (Writer (run sample_env ?t ?cs))) \<le> 1"
    by linarith
  from U e have "Close sample_env_broken_pipe ?u = (?u, err ?u)"
    by blast
  with e have c: "Close sample_env_broken_pipe ?u = (?u, Some broken_pipe)"
    by (simp only:)
  from sample_not_flush_fails a b e c show ?thesis
    by blast
qed

lemma sample_raw_Close:
  "Close sample_env (NewWriter sample_env sample_columns sample_raw_config) =
     (NewWriter sample_env sample_columns sample_raw_config
        \<lparr>closed_flag := True, headerPrinted := True,
         Writer := Stream [WriteCall (''NAME'' @ [CHR 0x09] @ ''ID'' @ newline)]\<rparr>,
      None)"
  by (simp add: sample_raw_NewWriter Close_def writeHeader_def printTemplate_def sink_Write_def
      sample_env_def sample_Execute_def sample_header Let_def split_def)

text \<open>
  In raw mode on a stream that refuses the write, the first \<^verbatim>\<open>Write\<close> stores the
  error; the \<^verbatim>\<open>Close\<close> that follows returns it and leaves the closed flag unset. And in
  raw mode on a sound stream, a \<^verbatim>\<open>Write\<close> after \<^verbatim>\<open>Close\<close> hands the row to the
  stream, after the header that \<^verbatim>\<open>Close\<close> wrote.
\<close>

theorem Close_twice_counterexample:
  "err (run sample_env_broken_pipe
        (NewWriter sample_env_broken_pipe sample_columns sample_raw_config) [CallWrite (StructV [])])
     = Some broken_pipe
   \<and> snd (Close sample_env_broken_pipe
        (run sample_env_broken_pipe
           (NewWriter sample_env_broken_pipe sample_columns sample_raw_config) [CallWrite (StructV [])]))
     = Some broken_pipe
   \<and> \<not> closed_flag (fst (Close sample_env_broken_pipe
        (run sample_env_broken_pipe
           (NewWriter sample_env_broken_pipe sample_columns sample_raw_config) [CallWrite (StructV [])])))
   \<and> closed_flag (fst (Close sample_env (NewWriter sample_env sample_columns sample_raw_config)))
   \<and> calls (Writer (fst (Close sample_env (NewWriter sample_env sample_columns sample_raw_config))))
     = [WriteCall (''NAME'' @ [CHR 0x09] @ ''ID'' @ newline)]
   \<and> calls (Writer (fst (Write sample_env
        (fst (Close sample_env (NewWriter sample_env sample_columns sample_raw_config))) (StructV []))))
     = [WriteCall (''NAME'' @ [CHR 0x09] @ ''ID'' @ newline),
        WriteCall (''name'' @ [CHR 0x09] @ ''id'' @ newline)]"
proof -
  have a: "err (run sample_env_broken_pipe
        (NewWriter sample_env_broken_pipe sample_columns sample_raw_config) [CallWrite (StructV [])])
     = Some broken_pipe"
    by (simp only: sample_raw_write_fails) simp
  have b: "snd (Close sample_env_broken_pipe
        (run sample_env_broken_pipe
           (NewWriter sample_env_broken_pipe sample_columns sample_raw_config) [CallWrite (StructV [])]))
     = Some broken_pipe"
    by (simp only: sample_raw_write_fails) (simp add: Close_def)
  have c: "\<not> closed_flag (fst (Close sample_env_broken_pipe
        (run sample_env_broken_pipe
           (NewWriter sample_env_broken_pipe sample_columns sample_raw_config) [CallWrite (StructV [])])))"
    by (simp only: sample_raw_write_fails) (simp add: Close_def)
  have d: "closed_flag (fst (Close sample_env (NewWriter sample_env sample_columns sample_raw_config)))"
    by (simp only: sample_raw_Close) simp
  have e: "calls (Writer (fst (Close sample_env (NewWriter sample_env sample_columns sample_raw_config))))
     = [WriteCall (''NAME'' @ [CHR 0x09] @ ''ID'' @ newline)]"
    by (simp only: sample_raw_Close) simp
  have f: "calls (Writer (fst (Write sample_env
        (fst (Close sample_env (NewWriter sample_env sample_columns sample_raw_config))) (StructV []))))
     = [WriteCall (''NAME'' @ [CHR 0x09] @ ''ID'' @ newline),
        WriteCall (''name'' @ [CHR 0x09] @ ''id'' @ newline)]"
    by (simp only: sample_raw_Close fst_conv)
      (simp add: sample_raw_NewWriter Write_def writeHeader_def printTemplate_def sink_Write_def
        sample_env_def sample_Execute_def sample_EncodeToMap_def sample_header Let_def split_def)
  from a b c d e f show ?thesis by blast
qed

text \<open>
  The error of the flush is returned by \<^verbatim>\<open>Close\<close> and stored nowhere, unlike the error
  of a header that fails in the same call: in table mode on the broken stream the first
  \<^verbatim>\<open>Close\<close> returns the error of the flush and the second returns nil.
\<close>

lemma Close_flush_error_lost:
  "snd (Close sample_env_broken_pipe (NewWriter sample_env_broken_pipe sample_columns sample_config))
     = Some broken_pipe
   \<and> snd (Close sample_env_broken_pipe
        (fst (Close sample_env_broken_pipe
           (NewWriter sample_env_broken_pipe sample_columns sample_config))))
     = None"
proof -
  have c: "Close sample_env_broken_pipe (NewWriter sample_env_broken_pipe sample_columns sample_config) =
     (NewWriter sample_env_broken_pipe sample_columns sample_config
        \<lparr>closed_flag := True, headerPrinted := True,
         Writer := TabWriter (Stream []) 10 1 3 CHR '' '' 0
           [WriteCall (''NAME'' @ [CHR 0x09] @ ''ID'' @ newline), FlushCall]\<rparr>,
      Some broken_pipe)"
    by (simp add: sample_NewWriter Close_def writeHeader_def printTemplate_def sink_Write_def
        sink_Flush_def sample_env_broken_pipe_def sample_env_def sample_Execute_def sample_header
        Let_def split_def)
  have "snd (Close sample_env_broken_pipe
        (fst (Close sample_env_broken_pipe
           (NewWriter sample_env_broken_pipe sample_columns sample_config)))) = None"
    by (simp only: c) (simp add: Close_def)
  then show ?thesis by (simp add: c)
qed

section \<open>JSON mode\<close>

lemma Write_json:
  assumes "ValueFormat t = ''json''" and "HeaderFormat t = ''''" and "err t = None"
    and "snd (json_MarshalIndent E obj '''' ''    '') = None"
  shows "Write E t obj =
     (t\<lparr>Writer := called (WriteCall (fst (json_MarshalIndent E obj '''' ''    '') @ newline @ newline)) (Writer t),
        err := write_result E (Writer t) (fst (json_MarshalIndent E obj '''' ''    '') @ newline @ newline)\<rparr>,
      None)"
  using assms
  by (simp add: Write_def writeHeader_idle FormatJSON_def sink_Write_def Let_def split_def)

lemma run_Writes_json:
  assumes "\<forall>out b. write_result E out b = None"
  shows "ValueFormat t = ''json'' \<Longrightarrow> HeaderFormat t = '''' \<Longrightarrow> err t = None \<Longrightarrow>
    \<forall>obj \<in> set objs. snd (json_MarshalIndent E obj '''' ''    '') = None \<Longrightarrow>
    written (calls (Writer (run E t (map CallWrite objs)))) =
      written (calls (Writer t)) @
      concat (map (\<lambda>obj. fst (json_MarshalIndent E obj '''' ''    '') @ newline @ newline) objs)"
proof (induction objs arbitrary: t)
  case Nil
  show ?case by simp
next
  case (Cons obj objs)
  let ?doc = "fst (json_MarshalIndent E obj '''' ''    '') @ newline @ newline"
  let ?t = "fst (Write E t obj)"
  have w: "?t = t\<lparr>Writer := called (WriteCall ?doc) (Writer t), err := write_result E (Writer t) ?doc\<rparr>"
    using Write_json [of t E obj] Cons.prems by simp
  have "err ?t = None" using w assms by simp
  moreover have "ValueFormat ?t = ''json''" "HeaderFormat ?t = ''''" using Cons.prems by simp_all
  moreover have "\<forall>obj \<in> set objs. snd (json_MarshalIndent E obj '''' ''    '') = None"
    using Cons.prems by simp
  ultimately have "written (calls (Writer (run E ?t (map CallWrite objs)))) =
      written (calls (Writer ?t)) @
      concat (map (\<lambda>obj. fst (json_MarshalIndent E obj '''' ''    '') @ newline @ newline) objs)"
    using Cons.IH [of ?t] by blast
  moreover have "written (calls (Writer ?t)) = written (calls (Writer t)) @ ?doc"
    by (subst w) simp
  ultimately show ?case by simp
qed

text \<open>
  C5, as the code has it. In JSON mode, whatever calls came before, a \<^verbatim>\<open>Write\<close> of a
  record that marshals, on a writer without a stored error, makes exactly one write on the
  sink: the record's JSON text, indented by four spaces, followed by two newlines, the one
  \<^verbatim>\<open>FormatJSON\<close> appends and the one \<^verbatim>\<open>Write\<close> appends; it does not panic. The bytes
  of a sequence of records are these documents one after the other, with no bracket before
  or after and no comma between them.
\<close>

theorem json_mode_document:
  assumes "cfg_Format config = ''json''"
  shows "(err (run E (NewWriter E values config) cs) = None \<and>
          snd (json_MarshalIndent E obj '''' ''    '') = None \<longrightarrow>
            calls (Writer (fst (Write E (run E (NewWriter E values config) cs) obj))) =
              calls (Writer (run E (NewWriter E values config) cs)) @
              [WriteCall (fst (json_MarshalIndent E obj '''' ''    '') @ newline @ newline)] \<and>
            err (fst (Write E (run E (NewWriter E values config) cs) obj)) =
              write_result E (Writer (run E (NewWriter E values config) cs))
                (fst (json_MarshalIndent E obj '''' ''    '') @ newline @ newline) \<and>
            snd (Write E (run E (NewWriter E values config) cs) obj) = None)
       \<and> ((\<forall>out b. write_result E out b = None) \<and>
          (\<forall>obj \<in> set objs. snd (json_MarshalIndent E obj '''' ''    '') = None) \<longrightarrow>
            written (calls (Writer (run E (NewWriter E values config) (map CallWrite objs)))) =
              concat (map (\<lambda>obj. fst (json_MarshalIndent E obj '''' ''    '') @ newline @ newline) objs))"
proof -
  have m: "HeaderFormat (NewWriter E values config) = ''''" "ValueFormat (NewWriter E values config) = ''json''"
    using NewWriter_tagged [of config E "values"] assms by simp_all
  have s: "written (calls (Writer (NewWriter E values config))) = []"
    using NewWriter_sink [of config E "values"] assms by simp
  show ?thesis
  proof (intro conjI impI)
    assume a: "err (run E (NewWriter E values config) cs) = None \<and>
          snd (json_MarshalIndent E obj '''' ''    '') = None"
    have w: "Write E (run E (NewWriter E values config) cs) obj =
        ((run E (NewWriter E values config) cs)
          \<lparr>Writer := called (WriteCall (fst (json_MarshalIndent E obj '''' ''    '') @ newline @ newline))
              (Writer (run E (NewWriter E values config) cs)),
           err := write_result E (Writer (run E (NewWriter E values config) cs))
              (fst (json_MarshalIndent E obj '''' ''    '') @ newline @ newline)\<rparr>,
         None)"
      using Write_json [of "run E (NewWriter E values config) cs" E obj] m a by simp
    show "calls (Writer (fst (Write E (run E (NewWriter E values config) cs) obj))) =
              calls (Writer (run E (NewWriter E values config) cs)) @
              [WriteCall (fst (json_MarshalIndent E obj '''' ''    '') @ newline @ newline)]"
      by (subst w) simp
    show "err (fst (Write E (run E (NewWriter E values config) cs) obj)) =
              write_result E (Writer (run E (NewWriter E values config) cs))
                (fst (json_MarshalIndent E obj '''' ''    '') @ newline @ newline)"
      by (subst w) simp
    show "snd (Write E (run E (NewWriter E values config) cs) obj) = None"
      by (subst w) simp
  next
    assume a: "(\<forall>out b. write_result E out b = None) \<and>
          (\<forall>obj \<in> set objs. snd (json_MarshalIndent E obj '''' ''    '') = None)"
    then show "written (calls (Writer (run E (NewWriter E values config) (map CallWrite objs)))) =
              concat (map (\<lambda>obj. fst (json_MarshalIndent E obj '''' ''    '') @ newline @ newline) objs)"
      using run_Writes_json [of E "NewWriter E values config" objs] m s by simp
  qed
qed

theorem json_mode_document_witness:
  "cfg_Format (sample_config\<lparr>cfg_Format := ''json''\<rparr>) = ''json''
   \<and> calls (Writer (fst (Write sample_env
        (run sample_env (NewWriter sample_env sample_columns (sample_config\<lparr>cfg_Format := ''json''\<rparr>)) [])
        (IntV 7))))
     = [WriteCall (''7'' @ newline @ newline)]
   \<and> written (calls (Writer (run sample_env
        (NewWriter sample_env sample_columns (sample_config\<lparr>cfg_Format := ''json''\<rparr>))
        (map CallWrite [StructV [], IntV 7]))))
     = ''{}'' @ newline @ newline @ ''7'' @ newline @ newline"
proof -
  have f: "cfg_Format (sample_config\<lparr>cfg_Format := ''json''\<rparr>) = ''json''" by simp
  have d: "decimal 7 = ''7''" by code_simp
  have j: "json_MarshalIndent sample_env (IntV 7) '''' ''    '' = (''7'', None)"
    "json_MarshalIndent sample_env (StructV []) '''' ''    '' = (''{}'', None)"
    by (simp_all add: sample_env_def sample_MarshalIndent_def d)
  have w: "\<forall>out b. write_result sample_env out b = None" by (simp add: sample_env_def)
  have c: "calls (Writer (NewWriter sample_env sample_columns (sample_config\<lparr>cfg_Format := ''json''\<rparr>))) = []"
    by (simp add: NewWriter_sink)
  show ?thesis
    using f j w c json_mode_document [OF f, of sample_env sample_columns "[]" "IntV 7" "[StructV [], IntV 7]"]
    by simp
qed

text \<open>
  The empty struct is written as \<^verbatim>\<open>{}\<close> and two newlines, not one.
\<close>

theorem json_single_newline_counterexample:
  "calls (Writer (fst (Write sample_env
        (NewWriter sample_env sample_columns (sample_config\<lparr>cfg_Format := ''json''\<rparr>)) (StructV []))))
     = [WriteCall (''{}'' @ newline @ newline)]
   \<and> calls (Writer (fst (Write sample_env
        (NewWriter sample_env sample_columns (sample_config\<lparr>cfg_Format := ''json''\<rparr>)) (StructV []))))
     \<noteq> [WriteCall (''{}'' @ newline)]"
  by (simp add: NewWriter_def Write_def writeHeader_def FormatJSON_def sink_Write_def
      tabwriter_NewWriter_def sample_env_def sample_MarshalIndent_def Let_def split_def)

section \<open>Templated mode\<close>

lemma Write_templated:
  assumes "err t = None" and "ValueFormat t \<notin> {''json'', ''jsoncompact'', ''yaml''}"
    and "err (writeHeader E t) = None"
  shows "Write E t obj =
     (case convert_EncodeToMap E obj of
        (None, None) \<Rightarrow> (writeHeader E t, Some (RuntimeError ''assignment to entry in nil map''))
      | (Some m, None) \<Rightarrow>
          ((writeHeader E t)
             \<lparr>Writer := fst (printTemplate E (writeHeader E t) (Writer (writeHeader E t)) (ValueFormat t)
                           (MapV (Some (AList.update ''Typed'' obj m)))),
              err := snd (printTemplate E (writeHeader E t) (Writer (writeHeader E t)) (ValueFormat t)
                           (MapV (Some (AList.update ''Typed'' obj m))))\<rparr>,
           None)
      | (d, Some ce) \<Rightarrow>
          ((writeHeader E t)
             \<lparr>Writer := fst (printTemplate E (writeHeader E t) (Writer (writeHeader E t)) (ValueFormat t) obj),
              err := snd (printTemplate E (writeHeader E t) (Writer (writeHeader E t)) (ValueFormat t) obj)\<rparr>,
           None))"
  using assms by (simp add: Write_def Let_def split_def split: option.splits prod.splits)

lemma printTemplate_parsed:
  assumes "template_Parse E (funcMap t) tmpl = None"
  shows "printTemplate E t out tmpl ctx =
     (fst (write_pieces E out (fst (template_Execute E (funcMap t) tmpl ctx))),
      case snd (write_pieces E out (fst (template_Execute E (funcMap t) tmpl ctx))) of
        Some e \<Rightarrow> Some e
      | None \<Rightarrow> snd (template_Execute E (funcMap t) tmpl ctx))"
  using assms by (simp add: printTemplate_def split: option.splits prod.splits)

text \<open>
  C9. The code does not treat every record as the claim says. When the conversion returns a
  nil map and a nil error, as it does for a nil record, \<^verbatim>\<open>Write\<close> in templated mode
  goes on to assign the key \<^verbatim>\<open>Typed\<close> in that map and panics: no template is executed,
  neither against a map nor against the record, and the writer is left as the header step
  made it.
\<close>

theorem nil_map_panics:
  assumes "err t = None" and "ValueFormat t \<notin> {''json'', ''jsoncompact'', ''yaml''}"
    and "err (writeHeader E t) = None"
    and "convert_EncodeToMap E obj = (None, None)"
  shows "Write E t obj =
           (writeHeader E t, Some (RuntimeError ''assignment to entry in nil map''))"
  using Write_templated [OF assms(1-3), of obj] assms(4) by simp

lemma sample_custom:
  "NewWriter sample_env sample_columns (sample_config\<lparr>cfg_Format := ''{{.}}''\<rparr>) =
   \<lparr>closed_flag = False, HeaderFormat = '''', ValueFormat = ''{{.}}'' @ newline, err = None,
    headerPrinted = False, Writer = TabWriter (Stream []) 10 1 3 CHR '' '' 0 [],
    funcMap = (sprig_TxtFuncMap sample_env ++ localFuncMap sample_env)
       (''id'' \<mapsto> FnString (id_func (sample_config\<lparr>cfg_Format := ''{{.}}''\<rparr>)))\<rparr>"
  by (simp add: NewWriter_def tabwriter_NewWriter_def sample_config_def Let_def split_def)

theorem nil_map_panics_witness:
  "convert_EncodeToMap sample_env NilInterface = (None, None)
   \<and> snd (Write sample_env
        (NewWriter sample_env sample_columns (sample_config\<lparr>cfg_Format := ''{{.}}''\<rparr>)) NilInterface)
     = Some (RuntimeError ''assignment to entry in nil map'')
   \<and> calls (Writer (fst (Write sample_env
        (NewWriter sample_env sample_columns (sample_config\<lparr>cfg_Format := ''{{.}}''\<rparr>)) NilInterface)))
     = []"
proof -
  let ?t = "NewWriter sample_env sample_columns (sample_config\<lparr>cfg_Format := ''{{.}}''\<rparr>)"
  have a: "err ?t = None" by simp
  have b: "ValueFormat ?t \<notin> {''json'', ''jsoncompact'', ''yaml''}" by (simp add: sample_custom)
  have h: "writeHeader sample_env ?t = ?t" by (simp add: writeHeader_idle sample_custom)
  have c: "err (writeHeader sample_env ?t) = None" by (simp add: h)
  have n: "convert_EncodeToMap sample_env NilInterface = (None, None)"
    by (simp add: sample_env_def sample_EncodeToMap_def)
  have w: "Write sample_env ?t NilInterface =
      (?t, Some (RuntimeError ''assignment to entry in nil map''))"
    using nil_map_panics [OF a b c n] h by (simp only:)
  have s: "calls (Writer ?t) = []" by (simp add: sample_custom)
  from n w s show ?thesis by (simp only: fst_conv snd_conv)
qed

text \<open>
  For every other outcome of the conversion the template is executed, when it parses. If
  the conversion returns a map, the context is that map with the key \<^verbatim>\<open>Typed\<close> bound to
  the record and every other key as converted; if it returns an error, the context is the
  record itself. The pieces the execution yields are written to the sink, and the error
  stored is the first error of a write, or else the error of the execution: the error of
  the conversion is stored nowhere.
\<close>

lemma templated_context:
  assumes "err t = None" and "ValueFormat t \<notin> {''json'', ''jsoncompact'', ''yaml''}"
    and "err (writeHeader E t) = None"
    and "template_Parse E (funcMap t) (ValueFormat t) = None"
  shows "(\<forall>m. convert_EncodeToMap E obj = (Some m, None) \<longrightarrow>
            (let ctx = MapV (Some (AList.update ''Typed'' obj m));
                 r = template_Execute E (funcMap t) (ValueFormat t) ctx;
                 w = write_pieces E (Writer (writeHeader E t)) (fst r)
             in Write E t obj =
                  ((writeHeader E t)
                     \<lparr>Writer := fst w, err := (case snd w of Some e \<Rightarrow> Some e | None \<Rightarrow> snd r)\<rparr>,
                   None))
            \<and> map_of (AList.update ''Typed'' obj m) ''Typed'' = Some obj
            \<and> (\<forall>k. k \<noteq> ''Typed'' \<longrightarrow> map_of (AList.update ''Typed'' obj m) k = map_of m k))
       \<and> (\<forall>d ce. convert_EncodeToMap E obj = (d, Some ce) \<longrightarrow>
            (let r = template_Execute E (funcMap t) (ValueFormat t) obj;
                 w = write_pieces E (Writer (writeHeader E t)) (fst r)
             in Write E t obj =
                  ((writeHeader E t)
                     \<lparr>Writer := fst w, err := (case snd w of Some e \<Rightarrow> Some e | None \<Rightarrow> snd r)\<rparr>,
                   None)))"
proof -
  have f: "funcMap (writeHeader E t) = funcMap t" by simp
  have pt: "printTemplate E (writeHeader E t) out tmpl ctx = printTemplate E t out tmpl ctx"
    for out tmpl ctx
    unfolding printTemplate_def f by (rule refl)
  show ?thesis
    using Write_templated [OF assms(1-3), of obj]
    by (auto simp: Let_def update_conv' pt printTemplate_parsed [OF assms(4)] split: option.splits)
qed

text \<open>
  On the sample writer with the template \<^verbatim>\<open>{{.}}\<close>: the integer 7 does not convert and
  is printed itself; the empty struct converts to the empty map and what is printed is the
  map with the key \<^verbatim>\<open>Typed\<close>.
\<close>

lemma templated_context_sample:
  "convert_EncodeToMap sample_env (IntV 7) =
      (None, Some (Error ''json: cannot unmarshal into Go value of type map[string]interface {}''))
   \<and> Write sample_env
        (NewWriter sample_env sample_columns (sample_config\<lparr>cfg_Format := ''{{.}}''\<rparr>)) (IntV 7)
     = (NewWriter sample_env sample_columns (sample_config\<lparr>cfg_Format := ''{{.}}''\<rparr>)
          \<lparr>Writer := TabWriter (Stream []) 10 1 3 CHR '' '' 0 [WriteCall ''7'', WriteCall newline],
           err := None\<rparr>, None)
   \<and> convert_EncodeToMap sample_env (StructV []) = (Some [], None)
   \<and> Write sample_env
        (NewWriter sample_env sample_columns (sample_config\<lparr>cfg_Format := ''{{.}}''\<rparr>)) (StructV [])
     = (NewWriter sample_env sample_columns (sample_config\<lparr>cfg_Format := ''{{.}}''\<rparr>)
          \<lparr>Writer := TabWriter (Stream []) 10 1 3 CHR '' '' 0
             [WriteCall ''map[Typed:{}]'', WriteCall newline],
           err := None\<rparr>, None)"
proof -
  let ?t = "NewWriter sample_env sample_columns (sample_config\<lparr>cfg_Format := ''{{.}}''\<rparr>)"
  have a: "err ?t = None" by simp
  have b: "ValueFormat ?t \<notin> {''json'', ''jsoncompact'', ''yaml''}" by (simp add: sample_custom)
  have h: "writeHeader sample_env ?t = ?t" by (simp add: writeHeader_idle sample_custom)
  have c: "err (writeHeader sample_env ?t) = None" by (simp add: h)
  have q: "template_Parse sample_env (funcMap ?t) (ValueFormat ?t) = None"
    by (simp add: sample_env_def)
  have d: "decimal 7 = ''7''" by code_simp
  have i: "convert_EncodeToMap sample_env (IntV 7) =
      (None, Some (Error ''json: cannot unmarshal into Go value of type map[string]interface {}''))"
    by (simp add: sample_env_def sample_EncodeToMap_def)
  have s: "convert_EncodeToMap sample_env (StructV []) = (Some [], None)"
    by (simp add: sample_env_def sample_EncodeToMap_def)
  have v: "ValueFormat ?t = ''{{.}}'' @ newline" "Writer ?t = TabWriter (Stream []) 10 1 3 CHR '' '' 0 []"
    by (simp_all add: sample_custom)
  have x: "template_Execute sample_env fm (ValueFormat ?t) ctx = ([sample_Sprint ctx, newline], None)"
    for fm ctx
    by (simp only: v(1)) (simp add: sample_env_def sample_Execute_def)
  have y: "write_result sample_env out b = None" for out b
    by (simp add: sample_env_def)
  have p7: "sample_Sprint (IntV 7) = ''7''"
    by (simp add: sample_Sprint_def d)
  have pm: "sample_Sprint (MapV (Some [(''Typed'', StructV [])])) = ''map[Typed:{}]''"
    by (simp add: sample_Sprint_def)
  have w7: "Write sample_env ?t (IntV 7) =
      (?t\<lparr>Writer := TabWriter (Stream []) 10 1 3 CHR '' '' 0 [WriteCall ''7'', WriteCall newline],
          err := None\<rparr>, None)"
    using templated_context [OF a b c q, of "IntV 7"] i
    by (simp add: Let_def h v(2) x y p7 sink_Write_def)
  have ws: "Write sample_env ?t (StructV []) =
      (?t\<lparr>Writer := TabWriter (Stream []) 10 1 3 CHR '' '' 0
             [WriteCall ''map[Typed:{}]'', WriteCall newline],
          err := None\<rparr>, None)"
    using templated_context [OF a b c q, of "StructV []"] s
    by (simp add: Let_def h v(2) x y pm sink_Write_def)
  from i w7 s ws show ?thesis by blast
qed

end
